theory Spec2Isabelle
  imports Main
begin

section \<open>The route table (package tunnelroute)\<close>

text \<open>
  Go strings and byte slices are sequences of bytes; both are modelled as \<open>string\<close>
  (a list of 8-bit characters), so that \<open>string(b)\<close> is the identity.
\<close>

type_synonym bytes = string

text \<open>
  The fields of \<open>tunnelroute.Endpoint\<close> and \<open>tunnelroute.Search\<close> that the
  route table reads. The field names carry a prefix because several structs of the
  program share them.
\<close>

record Endpoint =
  ep_Name :: string
  ep_Type :: string
  ep_Configured :: bool

record Search =
  s_Name :: string
  s_Session :: string
  s_EndpointType :: string
  s_EndpointName :: string

text \<open>
  \<open>Route\<close> is an interface; the table holds interface values and compares them with
  \<open>==\<close>, that is by the identity of the object behind them. A route value is
  therefore a reference into a store of route objects.
\<close>

type_synonym route_ref = nat

text \<open>
  Modelled from the spec: the types that implement \<open>Route\<close> are missing from the
  sources. The specification has a route carry its name, its session id and its
  endpoints, and a send channel. The object below keeps these, whether it was closed, and
  the messages handed to it, in order.
\<close>

record 'msg route =
  r_Name :: string
  r_Session :: string
  r_Endpoints :: "Endpoint list"
  r_closed :: bool
  r_sent :: "'msg list"

text \<open>
  Modelled from the spec: the methods \<open>GetName\<close>, \<open>GetSession\<close> and
  \<open>GetEndpoints\<close> of the types that implement \<open>Route\<close> are missing from the sources;
  they return the name, the session id and the endpoints of the route.
\<close>

definition GetName :: "'msg route \<Rightarrow> string" where
  "GetName r = r_Name r"

definition GetSession :: "'msg route \<Rightarrow> string" where
  "GetSession r = r_Session r"

definition GetEndpoints :: "'msg route \<Rightarrow> Endpoint list" where
  "GetEndpoints r = r_Endpoints r"

text \<open>
  Modelled from the spec: the method \<open>Close\<close> of the types that implement \<open>Route\<close>
  is missing from the sources; the specification has a closed session as a terminal state.
\<close>

definition Close :: "'msg route \<Rightarrow> 'msg route" where
  "Close r = r\<lparr>r_closed := True\<rparr>"

text \<open>
  Modelled from the spec: the method \<open>HasEndpoint\<close> of the types that implement
  \<open>Route\<close> is missing from the sources. The specification says that lookup keeps the
  routes "whose endpoints include a matching \<open>configured=true\<close> descriptor".
\<close>

definition HasEndpoint :: "'msg route \<Rightarrow> string \<Rightarrow> string \<Rightarrow> bool" where
  "HasEndpoint r endpointType endpointName =
     list_ex (\<lambda>e. ep_Type e = endpointType \<and> ep_Name e = endpointName \<and> ep_Configured e)
       (r_Endpoints r)"

text \<open>
  Modelled from the spec: the method \<open>Send\<close> of the types that implement \<open>Route\<close>
  is missing from the sources. The specification says that the message is handed to the
  route's send channel and that the session id of the route is returned. The channel is
  an unbounded queue here.
\<close>

definition route_Send :: "'msg route \<Rightarrow> 'msg \<Rightarrow> 'msg route \<times> string" where
  "route_Send r message = (r\<lparr>r_sent := r_sent r @ [message]\<rparr>, r_Session r)"

datatype log_entry = Infow string | Errorf string

text \<open>
  The state the table's operations act on: the map \<open>m\<close> of \<open>ConnectedRoutes\<close>,
  the gauge vector \<open>connectedRoutesGauge\<close>, the store of route objects, and the log.
  The declaration of the gauge vector is missing from the sources; it has one gauge per
  name, which \<open>Inc\<close> and \<open>Dec\<close> move by one, and whose values are whole numbers here.
\<close>

record 'msg ConnectedRoutes =
  m :: "string \<rightharpoonup> route_ref list"
  connectedRoutesGauge :: "string \<Rightarrow> int"
  heap :: "route_ref \<Rightarrow> 'msg route"
  logs :: "log_entry list"

definition MakeRoutes :: "(string \<Rightarrow> int) \<Rightarrow> (route_ref \<Rightarrow> 'msg route) \<Rightarrow> 'msg ConnectedRoutes" where
  "MakeRoutes g h = \<lparr>m = Map.empty, connectedRoutesGauge = g, heap = h, logs = []\<rparr>"

text \<open>
  \<open>sliceIndex\<close> scans \<open>0 .. limit-1\<close> and returns the first index that satisfies
  the predicate, or \<open>-1\<close>.
\<close>

function sliceIndex_from :: "nat \<Rightarrow> nat \<Rightarrow> (nat \<Rightarrow> bool) \<Rightarrow> int" where
  "sliceIndex_from i limit predicate =
     (if i < limit
      then (if predicate i then int i else sliceIndex_from (Suc i) limit predicate)
      else - 1)"
  by pat_completeness auto
termination
  by (relation "measure (\<lambda>(i, limit, predicate). limit - i)") auto

declare sliceIndex_from.simps [simp del]

definition sliceIndex :: "nat \<Rightarrow> (nat \<Rightarrow> bool) \<Rightarrow> int" where
  "sliceIndex limit predicate = sliceIndex_from 0 limit predicate"

definition Add :: "'msg ConnectedRoutes \<Rightarrow> route_ref \<Rightarrow> 'msg ConnectedRoutes" where
  "Add s state =
     (let name = GetName (heap s state);
          routeList = (case m s name of None \<Rightarrow> [] | Some l \<Rightarrow> l);
          routeList = routeList @ [state]
      in s\<lparr>m := (m s)(name \<mapsto> routeList),
            logs := logs s @ Infow ''new route''
                      # map (\<lambda>endpoint. Infow ''endpoint'') (GetEndpoints (heap s state)),
            connectedRoutesGauge :=
              (connectedRoutesGauge s)(name := connectedRoutesGauge s name + 1)\<rparr>)"

text \<open>
  \<open>Remove\<close> closes the route first, in every case. The slot cleared with \<open>nil\<close>
  is the one the truncation drops.
\<close>

definition Remove :: "'msg ConnectedRoutes \<Rightarrow> route_ref \<Rightarrow> 'msg ConnectedRoutes" where
  "Remove s0 state =
     (let s = s0\<lparr>heap := (heap s0)(state := Close (heap s0 state))\<rparr>;
          name = GetName (heap s state)
      in case m s name of
           None \<Rightarrow> s\<lparr>logs := logs s @ [Errorf ''no routes known by the name of %s'']\<rparr>
         | Some routeList \<Rightarrow>
             (let i = sliceIndex (length routeList) (\<lambda>i. routeList ! i = state)
              in if i = - 1
                 then s\<lparr>logs := logs s @ [Errorf ''attempt to remove unknown route %s'']\<rparr>
                 else
                   (let routeList = routeList[nat i := routeList ! (length routeList - 1)];
                        routeList = take (length routeList - 1) routeList
                    in s\<lparr>m := (m s)(name \<mapsto> routeList),
                          connectedRoutesGauge :=
                            (connectedRoutesGauge s)(name := connectedRoutesGauge s name - 1),
                          logs := logs s @ [Infow ''remove route'']\<rparr>)))"

datatype route_error = NoRoutesConnected | NoSuchRouteOrUnconfigured

text \<open>
  \<open>rnd.Intn n\<close> returns some number below \<open>n\<close>. The generator's next value is an
  input of the model, reduced into the range; every number below \<open>n\<close> is the result
  for some input.
\<close>

definition Intn :: "nat \<Rightarrow> nat \<Rightarrow> nat" where
  "Intn draw n = draw mod n"

definition findService :: "'msg ConnectedRoutes \<Rightarrow> Search \<Rightarrow> nat \<Rightarrow> route_error + route_ref" where
  "findService s ep draw =
     (case m s (s_Name ep) of
        None \<Rightarrow> Inl NoRoutesConnected
      | Some routeList \<Rightarrow>
          if length routeList = 0 then Inl NoRoutesConnected
          else
            (let possibleRoutes =
                   filter (\<lambda>i. HasEndpoint (heap s (routeList ! i)) (s_EndpointType ep) (s_EndpointName ep))
                     [0 ..< length routeList]
             in if length possibleRoutes = 0 then Inl NoSuchRouteOrUnconfigured
                else
                  (let selected = possibleRoutes ! Intn draw (length possibleRoutes)
                   in Inr (routeList ! selected))))"

text \<open>
  \<open>Send\<close> returns the pair \<open>("", err)\<close> as \<open>Inl err\<close> and \<open>(session, nil)\<close>
  as \<open>Inr session\<close>, beside the state after the call.
\<close>

definition Send ::
  "'msg ConnectedRoutes \<Rightarrow> Search \<Rightarrow> 'msg \<Rightarrow> nat \<Rightarrow> 'msg ConnectedRoutes \<times> (route_error + string)" where
  "Send s ep message draw =
     (case findService s ep draw of
        Inl err \<Rightarrow> (s, Inl err)
      | Inr route \<Rightarrow>
          (let (r, session) = route_Send (heap s route) message
           in (s\<lparr>heap := (heap s)(route := r)\<rparr>, Inr session)))"

text \<open>Example data: two routes of the agent \<open>a1\<close> and an empty table.\<close>

definition example_heap :: "route_ref \<Rightarrow> string route" where
  "example_heap ref =
     \<lparr>r_Name = ''a1'',
      r_Session = (if ref = 0 then ''s1'' else ''s2''),
      r_Endpoints = [\<lparr>ep_Name = ''prod'', ep_Type = ''kubernetes'', ep_Configured = (ref = 0)\<rparr>],
      r_closed = False, r_sent = []\<rparr>"

definition no_routes :: "string ConnectedRoutes" where
  "no_routes = MakeRoutes (\<lambda>name. 0) example_heap"

definition example_search :: Search where
  "example_search =
     \<lparr>s_Name = ''a1'', s_Session = [], s_EndpointType = ''kubernetes'', s_EndpointName = ''prod''\<rparr>"

section \<open>Tunnel frames (tunnel.proto)\<close>

text \<open>The integer fields carry no arithmetic here and are modelled as \<open>int\<close> and \<open>nat\<close>.\<close>

record HttpHeader =
  h_name :: string
  h_values :: "string list"

record OpenHTTPTunnelRequest =
  req_id :: string
  req_name :: string
  req_type :: string
  req_method :: string
  req_URI :: string
  req_headers :: "HttpHeader list"
  req_body :: bytes

record Annotation =
  a_name :: string
  a_value :: string

record EndpointHealth =
  eh_name :: string
  eh_type :: string
  eh_configured :: bool
  eh_namespaces :: "string list"
  eh_accountID :: string
  eh_assumeRole :: string
  eh_annotations :: "Annotation list"

record Hello =
  hello_endpoints :: "EndpointHealth list"
  hello_version :: string
  hello_hostname :: string
  hello_clientCertificate :: bytes
  hello_agentInfo :: "Annotation list"

datatype HttpTunnelControl =
    OpenHTTPTunnelRequest OpenHTTPTunnelRequest
  | CancelRequest string
  | HttpTunnelResponse (resp_id: string) (resp_status: int) (resp_headers: "HttpHeader list")
      (resp_contentLength: int)
  | HttpTunnelChunkedResponse (chunk_id: string) (chunk_body: bytes)

datatype MessageWrapper =
    PingRequest nat
  | PingResponse nat nat
  | Hello Hello
  | HttpTunnelControl HttpTunnelControl

section \<open>Errors and panics\<close>

text \<open>
  The error values the modelled code compares or creates: \<open>io.EOF\<close>,
  \<open>context.Canceled\<close>, a gRPC status error with its code, and an error that is only a
  text (\<open>fmt.Errorf\<close>, and every error of a library that is none of the others).
\<close>

datatype grpc_code = Unauthenticated | Unknown

datatype go_error = EOF | Canceled | StatusError grpc_code string | ErrorString string

text \<open>A call either returns or panics (an index out of range, a nil dereference).\<close>

datatype 'a outcome = Return 'a | Panic string

section \<open>The Kubernetes endpoint (app/agent/kubernetes.go and package serviceconfig)\<close>

text \<open>
  Of an \<open>x509.Certificate\<close> the model keeps the DER encoding \<open>Raw\<close>, which is what
  \<open>Equal\<close> compares; of a \<open>tls.Certificate\<close> the chain of DER encodings. A pointer
  that may be nil is an \<open>option\<close>.
\<close>

record x509_Certificate =
  Raw :: bytes

record tls_Certificate =
  Certificate :: "bytes list"

definition x509_Equal :: "x509_Certificate \<Rightarrow> x509_Certificate \<Rightarrow> bool" where
  "x509_Equal c other = (Raw c = Raw other)"

record kubeContext =
  username :: string
  serverURL :: string
  serverCA :: "x509_Certificate option"
  clientCert :: "tls_Certificate option"
  token :: string
  insecure :: bool

record kubernetesConfig =
  KubeConfig :: string

record KubernetesEndpoint =
  f :: kubeContext
  config :: kubernetesConfig

definition makeServerContextFields :: "KubernetesEndpoint \<Rightarrow> kubeContext" where
  "makeServerContextFields ke =
     \<lparr>username = username (f ke),
      serverURL = serverURL (f ke),
      serverCA = serverCA (f ke),
      clientCert = clientCert (f ke),
      token = token (f ke),
      insecure = insecure (f ke)\<rparr>"

subsection \<open>Comparing contexts\<close>

definition tlsCertEqual :: "tls_Certificate option \<Rightarrow> tls_Certificate option \<Rightarrow> bool outcome" where
  "tlsCertEqual s1 s2 =
     (if s1 = None \<and> s2 = None then Return True
      else if (s1 \<noteq> None \<and> s2 = None) \<or> (s1 = None \<and> s2 \<noteq> None) then Return False
      else if Certificate (the s1) = [] \<or> Certificate (the s2) = []
        then Panic ''index out of range''
      else Return (Certificate (the s1) ! 0 = Certificate (the s2) ! 0))"

definition x509CertEqual :: "x509_Certificate option \<Rightarrow> x509_Certificate option \<Rightarrow> bool" where
  "x509CertEqual s1 s2 =
     (if s1 = None \<and> s2 = None then True
      else if (s1 \<noteq> None \<and> s2 = None) \<or> (s1 = None \<and> s2 \<noteq> None) then False
      else x509_Equal (the s1) (the s2))"

text \<open>\<open>isSameAs\<close> of package serviceconfig.\<close>

definition isSameAs :: "kubeContext \<Rightarrow> kubeContext \<Rightarrow> bool outcome" where
  "isSameAs scf scf2 =
     (if username scf \<noteq> username scf2 \<or> serverURL scf \<noteq> serverURL scf2
         \<or> token scf \<noteq> token scf2 \<or> insecure scf \<noteq> insecure scf2
      then Return False
      else if \<not> x509CertEqual (serverCA scf) (serverCA scf2) then Return False
      else tlsCertEqual (clientCert scf) (clientCert scf2))"

text \<open>\<open>isSameAs\<close> of app/agent/kubernetes.go, which has the comparisons inline.\<close>

definition isSameAs_agent :: "kubeContext \<Rightarrow> kubeContext \<Rightarrow> bool outcome" where
  "isSameAs_agent scf scf2 =
     (if username scf \<noteq> username scf2 \<or> serverURL scf \<noteq> serverURL scf2
         \<or> token scf \<noteq> token scf2 \<or> insecure scf \<noteq> insecure scf2
      then Return False
      else if (serverCA scf = None \<and> serverCA scf2 \<noteq> None)
            \<or> (serverCA scf \<noteq> None \<and> serverCA scf2 = None)
      then Return False
      else if serverCA scf \<noteq> None \<and> serverCA scf2 \<noteq> None
            \<and> \<not> x509_Equal (the (serverCA scf)) (the (serverCA scf2))
      then Return False
      else if (clientCert scf = None \<and> clientCert scf2 \<noteq> None)
            \<or> (clientCert scf \<noteq> None \<and> clientCert scf2 = None)
      then Return False
      else if clientCert scf \<noteq> None \<and> clientCert scf2 \<noteq> None
      then (if Certificate (the (clientCert scf)) = [] \<or> Certificate (the (clientCert scf2)) = []
            then Panic ''index out of range''
            else if Certificate (the (clientCert scf)) ! 0 \<noteq> Certificate (the (clientCert scf2)) ! 0
            then Return False
            else Return True)
      else Return True)"

text \<open>
  One round of the loop of \<open>updateServerContextTicker\<close>, between taking and releasing
  the lock; \<open>saf\<close> is what \<open>loadKubernetesSecurity\<close> returned in this round. The loop
  itself never ends.
\<close>

definition updateServerContextTicker :: "KubernetesEndpoint \<Rightarrow> kubeContext \<Rightarrow> KubernetesEndpoint outcome" where
  "updateServerContextTicker ke saf =
     (case isSameAs (f ke) saf of
        Panic p \<Rightarrow> Panic p
      | Return same \<Rightarrow> Return (if \<not> same then ke\<lparr>f := saf\<rparr> else ke))"

definition updateServerContextTicker_agent :: "KubernetesEndpoint \<Rightarrow> kubeContext \<Rightarrow> KubernetesEndpoint outcome" where
  "updateServerContextTicker_agent ke saf =
     (case isSameAs_agent (f ke) saf of
        Panic p \<Rightarrow> Panic p
      | Return same \<Rightarrow> Return (if \<not> same then ke\<lparr>f := saf\<rparr> else ke))"

subsection \<open>Loading the service account\<close>

text \<open>
  The operating system and the libraries \<open>loadServiceAccount\<close> calls: reading a file,
  reading an environment variable (empty when unset), \<open>pem.Decode\<close> (the \<open>Bytes\<close> of
  the block found, or no block) and \<open>x509.ParseCertificate\<close>.
\<close>

record os_pkg =
  ReadFile :: "string \<Rightarrow> go_error + bytes"
  Getenv :: "string \<Rightarrow> string"
  pem_Decode :: "bytes \<Rightarrow> bytes option"
  x509_ParseCertificate :: "bytes \<Rightarrow> go_error + x509_Certificate"

definition loadServiceAccount :: "os_pkg \<Rightarrow> (go_error + kubeContext) outcome" where
  "loadServiceAccount os =
     (case ReadFile os ''/var/run/secrets/kubernetes.io/serviceaccount/token'' of
        Inl err \<Rightarrow> Return (Inl err)
      | Inr tokenFile \<Rightarrow>
     (case ReadFile os ''/var/run/secrets/kubernetes.io/serviceaccount/ca.crt'' of
        Inl err \<Rightarrow> Return (Inl err)
      | Inr serverCAFile \<Rightarrow>
     (case pem_Decode os serverCAFile of
        None \<Rightarrow> Panic ''nil pointer dereference''
      | Some pemBlock_Bytes \<Rightarrow>
     (case x509_ParseCertificate os pemBlock_Bytes of
        Inl err \<Rightarrow> Return (Inl err)
      | Inr serverCert \<Rightarrow>
     (let servicePort = Getenv os ''KUBERNETES_SERVICE_PORT'' in
      if length servicePort = 0
      then Return (Inl (ErrorString
        ''unable to locate API server from KUBERNETES_SERVICE_PORT environment variable''))
      else
     (let serviceHost = Getenv os ''KUBERNETES_SERVICE_HOST'' in
      if length serviceHost = 0
      then Return (Inl (ErrorString
        ''unable to locate API server from KUBERNETES_SERVICE_HOST environment variable''))
      else Return (Inr
        \<lparr>username = ''ServiceAccount'',
         serverURL = ''https://'' @ serviceHost @ '':'' @ servicePort,
         serverCA = Some serverCert,
         clientCert = None,
         token = tokenFile,
         insecure = True\<rparr>)))))))"

subsection \<open>Executing a tunnelled request\<close>

text \<open>
  The TLS configuration and the transport that the executor builds from its snapshot of
  the context, in its first statements. \<open>tls.VersionTLS12\<close> is \<open>0x0303\<close>; the idle
  timeout is in seconds; \<open>RootCAs\<close> is the pool's certificates, or no pool.
\<close>

record tls_Config =
  MinVersion :: nat
  InsecureSkipVerify :: bool
  RootCAs :: "x509_Certificate list option"
  Certificates :: "tls_Certificate list"

record http_Transport =
  MaxIdleConns :: nat
  IdleConnTimeout :: nat
  DisableCompression :: bool
  TLSClientConfig :: tls_Config

definition VersionTLS12 :: nat where
  "VersionTLS12 = 771"

definition executor_tlsConfig :: "kubeContext \<Rightarrow> tls_Config" where
  "executor_tlsConfig c =
     (let tlsConfig = \<lparr>MinVersion = VersionTLS12, InsecureSkipVerify = insecure c,
                        RootCAs = None, Certificates = []\<rparr>;
          tlsConfig = (if serverCA c \<noteq> None
                       then tlsConfig\<lparr>RootCAs := Some [the (serverCA c)]\<rparr> else tlsConfig);
          tlsConfig = (if clientCert c \<noteq> None
                       then tlsConfig\<lparr>Certificates := [the (clientCert c)]\<rparr> else tlsConfig)
      in tlsConfig)"

definition executor_transport :: "kubeContext \<Rightarrow> http_Transport" where
  "executor_transport c =
     \<lparr>MaxIdleConns = 10, IdleConnTimeout = 30, DisableCompression = True,
      TLSClientConfig = executor_tlsConfig c\<rparr>"

text \<open>
  A response body is the sequence of the results of its \<open>Read\<close> calls, each the bytes
  placed in the buffer (\<open>n\<close> is their number) and the error, \<open>None\<close> for nil. The
  sequence is the part of the body's behaviour seen so far: when it is used up and no call
  has returned an error, the loop that reads it is still running.
\<close>

record read_result =
  rd_data :: bytes
  rd_err :: "go_error option"

record http_Response =
  StatusCode :: int
  Header :: "(string \<times> string list) list"
  ContentLength :: int
  Body :: "read_result list"

text \<open>
  Package net/http: building a request from a method, a URL and a body, adding and
  setting a header of a request, and performing the call through a transport. The request
  type is the library's own.
\<close>

record 'req http_pkg =
  NewRequestWithContext :: "string \<Rightarrow> string \<Rightarrow> bytes \<Rightarrow> go_error + 'req"
  Header_Add :: "'req \<Rightarrow> string \<Rightarrow> string \<Rightarrow> 'req"
  Header_Set :: "'req \<Rightarrow> string \<Rightarrow> string \<Rightarrow> 'req"
  Do :: "http_Transport \<Rightarrow> 'req \<Rightarrow> go_error + http_Response"

text \<open>
  Modelled from the spec: the value \<open>emptyBytes\<close> is missing from the sources. The
  specification has a chunk with an empty body as the last frame.
\<close>

definition emptyBytes :: bytes where
  "emptyBytes = []"

text \<open>
  Modelled from the spec: the constructor \<open>makeResponse\<close> is missing from the sources.
  The specification has the frame \<open>HttpTunnelResponse{id, status, headers[],
  content_length}\<close>, filled from the response of the outbound call.
\<close>

definition makeResponse :: "string \<Rightarrow> http_Response \<Rightarrow> MessageWrapper" where
  "makeResponse reqId get =
     HttpTunnelControl (HttpTunnelResponse reqId (StatusCode get)
       (map (\<lambda>(name, values). \<lparr>h_name = name, h_values = values\<rparr>) (Header get))
       (ContentLength get))"

text \<open>
  Modelled from the spec: the constructor \<open>makeChunkedResponse\<close> is missing from the
  sources. The specification has the frame \<open>HttpTunnelChunkedResponse{id, body}\<close>.
\<close>

definition makeChunkedResponse :: "string \<Rightarrow> bytes \<Rightarrow> MessageWrapper" where
  "makeChunkedResponse reqId data = HttpTunnelControl (HttpTunnelChunkedResponse reqId data)"

text \<open>
  Modelled from the spec: the constructor \<open>makeBadGatewayResponse\<close> is missing from the
  sources. The specification has a "synthesized 502 response frame" for an error of the
  executor.
\<close>

definition makeBadGatewayResponse :: "string \<Rightarrow> MessageWrapper" where
  "makeBadGatewayResponse reqId = HttpTunnelControl (HttpTunnelResponse reqId 502 [] 0)"

text \<open>
  Modelled from the spec: the constructor \<open>tunnel.MakeBadGatewayResponse\<close>, which
  package serviceconfig calls, is missing from the sources; it is the same frame.
\<close>

definition MakeBadGatewayResponse :: "string \<Rightarrow> MessageWrapper" where
  "MakeBadGatewayResponse reqId = makeBadGatewayResponse reqId"

text \<open>
  What a run of the executor has done: the frames it has put on \<open>dataflow\<close>, in order,
  and whether it has returned, is still reading the body, or has panicked.
\<close>

datatype exec_status = Returned | Reading | Panicked

text \<open>
  The loop of \<open>executeHTTPRequest\<close>. The buffer has 10240 bytes; \<open>buf[:n]\<close> panics
  for a larger \<open>n\<close>.
\<close>

fun executeHTTPRequest_loop :: "string \<Rightarrow> read_result list \<Rightarrow> MessageWrapper list \<times> exec_status" where
  "executeHTTPRequest_loop reqId [] = ([], Reading)"
| "executeHTTPRequest_loop reqId (r # body) =
     (if length (rd_data r) > 10240 then ([], Panicked)
      else
        (let sent = (if length (rd_data r) > 0 then [makeChunkedResponse reqId (rd_data r)] else [])
         in if rd_err r = Some EOF then (sent @ [makeChunkedResponse reqId emptyBytes], Returned)
            else if rd_err r = Some Canceled then (sent, Returned)
            else if rd_err r \<noteq> None then (sent @ [makeChunkedResponse reqId emptyBytes], Returned)
            else (case executeHTTPRequest_loop reqId body of
                    (frames, status) \<Rightarrow> (sent @ frames, status))))"

text \<open>
  The error that ends the reading of a body: the error of the first \<open>Read\<close> call that
  returns one.
\<close>

fun read_end :: "read_result list \<Rightarrow> go_error option" where
  "read_end [] = None"
| "read_end (r # body) = (if rd_err r \<noteq> None then rd_err r else read_end body)"

text \<open>
  \<open>executeHTTPRequest\<close> of app/agent/kubernetes.go. Its request and frame types are
  those of an earlier tunnel.proto; the request is read through the fields of
  \<open>OpenHTTPTunnelRequest\<close> and the frames are those of \<open>MessageWrapper\<close>. The
  registration of the cancel function, removed again on return, acts on the registry of
  cancel functions only. The statements that copy the headers of the tunnelled request and
  set the bearer token are \<open>executeHTTPRequest_headers\<close>.
\<close>

definition executeHTTPRequest_headers ::
  "'req http_pkg \<Rightarrow> kubeContext \<Rightarrow> OpenHTTPTunnelRequest \<Rightarrow> 'req \<Rightarrow> 'req" where
  "executeHTTPRequest_headers http c req httpRequest =
     (let httpRequest =
            fold (\<lambda>header r. fold (\<lambda>value r. Header_Add http r (h_name header) value)
                               (h_values header) r)
              (req_headers req) httpRequest
      in if length (token c) > 0
         then Header_Set http httpRequest ''Authorization'' (''Bearer '' @ token c)
         else httpRequest)"

definition executeHTTPRequest ::
  "'req http_pkg \<Rightarrow> KubernetesEndpoint \<Rightarrow> OpenHTTPTunnelRequest \<Rightarrow> MessageWrapper list \<times> exec_status" where
  "executeHTTPRequest http ke req =
     (let c = makeServerContextFields ke;
          tr = executor_transport c
      in case NewRequestWithContext http (req_method req) (serverURL c @ req_URI req) (req_body req) of
           Inl err \<Rightarrow> ([makeBadGatewayResponse (req_id req)], Returned)
         | Inr httpRequest \<Rightarrow>
             (case Do http tr (executeHTTPRequest_headers http c req httpRequest) of
                Inl err \<Rightarrow> ([makeBadGatewayResponse (req_id req)], Returned)
              | Inr get \<Rightarrow>
                  (case executeHTTPRequest_loop (req_id req) (Body get) of
                     (frames, status) \<Rightarrow> (makeResponse (req_id req) get # frames, status))))"

text \<open>
  Package tunnel, as far as \<open>ExecuteHTTPRequest\<close> of package serviceconfig calls it:
  \<open>CopyHeaders\<close> and \<open>RunHTTPRequest\<close>, which performs the call and sends the
  frames.
\<close>

record 'req tunnel_pkg =
  CopyHeaders :: "HttpHeader list \<Rightarrow> 'req \<Rightarrow> go_error + 'req"
  RunHTTPRequest ::
    "http_Transport \<Rightarrow> OpenHTTPTunnelRequest \<Rightarrow> 'req \<Rightarrow> string \<Rightarrow> MessageWrapper list \<times> exec_status"

definition ExecuteHTTPRequest ::
  "'req http_pkg \<Rightarrow> 'req tunnel_pkg \<Rightarrow> KubernetesEndpoint \<Rightarrow> OpenHTTPTunnelRequest
     \<Rightarrow> MessageWrapper list \<times> exec_status" where
  "ExecuteHTTPRequest http tunnel ke req =
     (let c = makeServerContextFields ke;
          client = executor_transport c
      in case NewRequestWithContext http (req_method req) (serverURL c @ req_URI req) (req_body req) of
           Inl err \<Rightarrow> ([MakeBadGatewayResponse (req_id req)], Returned)
         | Inr httpRequest \<Rightarrow>
             (case CopyHeaders tunnel (req_headers req) httpRequest of
                Inl err \<Rightarrow> ([MakeBadGatewayResponse (req_id req)], Returned)
              | Inr httpRequest \<Rightarrow>
                  (let httpRequest =
                         (if length (token c) > 0
                          then Header_Set http httpRequest ''Authorization'' (''Bearer '' @ token c)
                          else httpRequest)
                   in RunHTTPRequest tunnel client req httpRequest (serverURL c))))"

section \<open>Identity binding (forwarder-controller)\<close>

text \<open>
  Modelled from the spec: the type \<open>ca.CertificateName\<close> is missing from the sources.
  The specification has \<open>CertificateName{purpose, agent?, name?}\<close>.
  \<open>ca.GetCertificateNameFromCert\<close>, which reads the name from the certificate's OU, is
  an argument of the functions below.
\<close>

record CertificateName =
  cn_Purpose :: string
  cn_Agent :: string
  cn_Name :: string

text \<open>
  Modelled from the spec: the constant \<open>ca.CertificatePurposeAgent\<close> is missing from
  the sources. The specification has the purposes \<open>agent\<close>, \<open>control\<close> and
  \<open>service\<close>.
\<close>

definition CertificatePurposeAgent :: string where
  "CertificatePurposeAgent = ''agent''"

text \<open>
  What \<open>peer.FromContext\<close> finds in the context of a stream: no peer, or the peer's
  authentication info, which is \<open>credentials.TLSInfo\<close> with the verified chains of the
  connection, or something else.
\<close>

datatype AuthInfo = TLSInfo (VerifiedChains: "x509_Certificate list list") | OtherAuthInfo

definition getAgentNameFromCertificate ::
  "(x509_Certificate \<Rightarrow> go_error + CertificateName) \<Rightarrow> x509_Certificate \<Rightarrow> go_error + string" where
  "getAgentNameFromCertificate GetCertificateNameFromCert cert =
     (case GetCertificateNameFromCert cert of
        Inl err \<Rightarrow> Inl err
      | Inr names \<Rightarrow>
          if cn_Purpose names \<noteq> CertificatePurposeAgent
          then Inl (ErrorString ''not an agent certificate'')
          else Inr (cn_Agent names))"

definition getAgentNameFromContext ::
  "(x509_Certificate \<Rightarrow> go_error + CertificateName) \<Rightarrow> AuthInfo option \<Rightarrow> go_error + string" where
  "getAgentNameFromContext GetCertificateNameFromCert ctx =
     (case ctx of
        None \<Rightarrow> Inl (StatusError Unauthenticated ''no peer found'')
      | Some OtherAuthInfo \<Rightarrow>
          Inl (StatusError Unauthenticated ''unexpected peer transport credentials'')
      | Some (TLSInfo verifiedChains) \<Rightarrow>
          if length verifiedChains = 0 \<or> length (verifiedChains ! 0) = 0
          then Inl (StatusError Unauthenticated ''could not verify peer certificate'')
          else getAgentNameFromCertificate GetCertificateNameFromCert (verifiedChains ! 0 ! 0))"

section \<open>Example data\<close>

definition example_context :: kubeContext where
  "example_context =
     \<lparr>username = ''admin'', serverURL = ''https://10.0.0.1:6443'',
      serverCA = Some \<lparr>Raw = ''ca-der''\<rparr>,
      clientCert = Some \<lparr>Certificate = [''client-der'', ''intermediate-der'']\<rparr>,
      token = ''tok'', insecure = False\<rparr>"

definition example_endpoint :: KubernetesEndpoint where
  "example_endpoint = \<lparr>f = example_context, config = \<lparr>KubeConfig = ''/app/config/kubeconfig.yaml''\<rparr>\<rparr>"

definition example_request :: OpenHTTPTunnelRequest where
  "example_request =
     \<lparr>req_id = ''t1'', req_name = ''prod'', req_type = ''kubernetes'', req_method = ''GET'',
      req_URI = ''/v1/pods'', req_headers = [\<lparr>h_name = ''Accept'', h_values = [''*/*'']\<rparr>],
      req_body = []\<rparr>"

text \<open>
  A library whose requests are the lists of their headers: it refuses an empty method,
  and its call fails when no response is given, and else returns the response.
\<close>

definition example_http :: "(go_error + http_Response) \<Rightarrow> (string \<times> string) list http_pkg" where
  "example_http answer =
     \<lparr>NewRequestWithContext =
        (\<lambda>method url body. if method = [] then Inl (ErrorString ''invalid method'') else Inr []),
      Header_Add = (\<lambda>r name value. r @ [(name, value)]),
      Header_Set = (\<lambda>r name value. filter (\<lambda>(n, v). n \<noteq> name) r @ [(name, value)]),
      Do = (\<lambda>tr r. answer)\<rparr>"

definition example_tunnel :: "(string \<times> string) list tunnel_pkg" where
  "example_tunnel =
     \<lparr>CopyHeaders = (\<lambda>headers r. Inr r),
      RunHTTPRequest = (\<lambda>client req r baseURL. ([], Returned))\<rparr>"

definition example_response :: "read_result list \<Rightarrow> http_Response" where
  "example_response body = \<lparr>StatusCode = 200, Header = [], ContentLength = 2, Body = body\<rparr>"

text \<open>
  Three bodies that give two bytes and then end: at the end of the data, by the
  cancellation of the request, and by a failure of the connection.
\<close>

definition complete_body :: "read_result list" where
  "complete_body = [\<lparr>rd_data = ''ab'', rd_err = None\<rparr>, \<lparr>rd_data = [], rd_err = Some EOF\<rparr>]"

definition cancelled_body :: "read_result list" where
  "cancelled_body = [\<lparr>rd_data = ''ab'', rd_err = None\<rparr>, \<lparr>rd_data = [], rd_err = Some Canceled\<rparr>]"

definition broken_body :: "read_result list" where
  "broken_body =
     [\<lparr>rd_data = ''ab'', rd_err = None\<rparr>,
      \<lparr>rd_data = [], rd_err = Some (ErrorString ''connection reset by peer'')\<rparr>]"

definition example_os :: os_pkg where
  "example_os =
     \<lparr>ReadFile = (\<lambda>path. if path = ''/var/run/secrets/kubernetes.io/serviceaccount/token''
                          then Inr ''tok'' else Inr ''pem''),
      Getenv = (\<lambda>var. if var = ''KUBERNETES_SERVICE_HOST'' then ''10.0.0.1'' else ''443''),
      pem_Decode = (\<lambda>file. Some ''der''),
      x509_ParseCertificate = (\<lambda>der. Inr \<lparr>Raw = der\<rparr>)\<rparr>"

definition control_names :: "x509_Certificate \<Rightarrow> go_error + CertificateName" where
  "control_names cert = Inr \<lparr>cn_Purpose = ''control'', cn_Agent = ''a1'', cn_Name = []\<rparr>"

section \<open>Properties of the route table\<close>

subsection \<open>Searching a slice\<close>

lemma sliceIndex_from_none:
  "(sliceIndex_from i limit p = - 1) = (\<forall>j. i \<le> j \<and> j < limit \<longrightarrow> \<not> p j)"
proof (induction i limit p rule: sliceIndex_from.induct)
  case (1 i limit predicate)
  show ?case
  proof (cases "i < limit")
    case False
    then show ?thesis by (auto simp add: sliceIndex_from.simps [of i])
  next
    case True
    show ?thesis
    proof (cases "predicate i")
      case True
      with \<open>i < limit\<close> show ?thesis
        by (auto simp add: sliceIndex_from.simps [of i])
    next
      case False
      have "(\<forall>j. i \<le> j \<and> j < limit \<longrightarrow> \<not> predicate j) = (\<forall>j. Suc i \<le> j \<and> j < limit \<longrightarrow> \<not> predicate j)"
        using False by (metis Suc_leD Suc_leI le_neq_implies_less)
      with 1 False \<open>i < limit\<close> show ?thesis
        by (simp add: sliceIndex_from.simps [of i])
    qed
  qed
qed

lemma sliceIndex_from_some:
  "sliceIndex_from i limit p \<noteq> - 1 \<Longrightarrow>
     \<exists>k. sliceIndex_from i limit p = int k \<and> i \<le> k \<and> k < limit \<and> p k"
proof (induction i limit p rule: sliceIndex_from.induct)
  case (1 i limit predicate)
  show ?case
  proof (cases "i < limit")
    case False
    with 1(2) show ?thesis by (simp add: sliceIndex_from.simps [of i])
  next
    case True
    show ?thesis
    proof (cases "predicate i")
      case True
      with \<open>i < limit\<close> show ?thesis
        by (auto simp add: sliceIndex_from.simps [of i])
    next
      case False
      with 1(2) True have "sliceIndex_from (Suc i) limit predicate \<noteq> - 1"
        by (simp add: sliceIndex_from.simps [of i])
      with 1(1) [OF True False] obtain k where
        "sliceIndex_from (Suc i) limit predicate = int k" "Suc i \<le> k" "k < limit" "predicate k"
        by blast
      with True False show ?thesis
        by (auto simp add: sliceIndex_from.simps [of i])
    qed
  qed
qed

lemma sliceIndex_absent:
  "state \<notin> set routeList \<Longrightarrow> sliceIndex (length routeList) (\<lambda>i. routeList ! i = state) = - 1"
  by (auto simp add: sliceIndex_def sliceIndex_from_none in_set_conv_nth)

lemma sliceIndex_present:
  "state \<in> set routeList \<Longrightarrow>
     \<exists>k. sliceIndex (length routeList) (\<lambda>i. routeList ! i = state) = int k
        \<and> k < length routeList \<and> routeList ! k = state"
proof -
  assume "state \<in> set routeList"
  then obtain j where "j < length routeList" "routeList ! j = state"
    by (auto simp: in_set_conv_nth)
  then have "sliceIndex_from 0 (length routeList) (\<lambda>i. routeList ! i = state) \<noteq> - 1"
    by (auto simp: sliceIndex_from_none)
  from sliceIndex_from_some [OF this] show ?thesis
    by (auto simp: sliceIndex_def)
qed

lemma Remove_absent_name:
  "m s (r_Name (heap s state)) = None \<Longrightarrow>
   Remove s state =
     s\<lparr>heap := (heap s)(state := Close (heap s state)),
       logs := logs s @ [Errorf ''no routes known by the name of %s'']\<rparr>"
  by (simp add: Remove_def Let_def GetName_def Close_def)

lemma Remove_absent_route:
  "m s (r_Name (heap s state)) = Some routeList \<Longrightarrow> state \<notin> set routeList \<Longrightarrow>
   Remove s state =
     s\<lparr>heap := (heap s)(state := Close (heap s state)),
       logs := logs s @ [Errorf ''attempt to remove unknown route %s'']\<rparr>"
  by (simp add: Remove_def Let_def GetName_def Close_def sliceIndex_absent)


lemma Add_m:
  "m (Add s state) =
     (m s)(r_Name (heap s state) \<mapsto> (case m s (r_Name (heap s state)) of None \<Rightarrow> [] | Some l \<Rightarrow> l) @ [state])"
  by (simp add: Add_def Let_def GetName_def)

lemma Add_gauge:
  "connectedRoutesGauge (Add s state) =
     (connectedRoutesGauge s)
       (r_Name (heap s state) := connectedRoutesGauge s (r_Name (heap s state)) + 1)"
  by (simp add: Add_def Let_def GetName_def)

lemma Add_heap: "heap (Add s state) = heap s"
  by (simp add: Add_def Let_def)

lemma drop_own_last:
  assumes "k < length (l @ [x])" and "(l @ [x]) ! k = x"
  shows "take (length (l @ [x]) - 1) ((l @ [x])[k := (l @ [x]) ! (length (l @ [x]) - 1)]) = l"
proof -
  have "(l @ [x]) ! (length (l @ [x]) - 1) = x" by simp
  moreover have "(l @ [x])[k := x] = l @ [x]"
    using assms by (metis list_update_id)
  ultimately show ?thesis by simp
qed

lemma Remove_found:
  assumes "m s (r_Name (heap s state)) = Some routeList" and "state \<in> set routeList"
  shows "\<exists>k. k < length routeList \<and> routeList ! k = state \<and>
    m (Remove s state) =
      (m s)(r_Name (heap s state) \<mapsto>
         take (length routeList - 1) (routeList[k := routeList ! (length routeList - 1)])) \<and>
    connectedRoutesGauge (Remove s state) =
      (connectedRoutesGauge s)
        (r_Name (heap s state) := connectedRoutesGauge s (r_Name (heap s state)) - 1)"
proof -
  from sliceIndex_present [OF assms(2)] obtain k where
    k: "sliceIndex (length routeList) (\<lambda>i. routeList ! i = state) = int k"
       "k < length routeList" "routeList ! k = state"
    by blast
  have "int k \<noteq> - 1" by simp
  with k assms(1) show ?thesis
    by (intro exI [of _ k]) (simp add: Remove_def Let_def GetName_def Close_def)
qed

subsection \<open>Route selection\<close>

lemma findService_selected:
  assumes "findService s ep draw = Inr route"
  shows "\<exists>routeList. m s (s_Name ep) = Some routeList \<and> route \<in> set routeList \<and>
           HasEndpoint (heap s route) (s_EndpointType ep) (s_EndpointName ep)"
proof (cases "m s (s_Name ep)")
  case None
  with assms show ?thesis by (simp add: findService_def)
next
  case (Some routeList)
  define P where "P = (\<lambda>i. HasEndpoint (heap s (routeList ! i)) (s_EndpointType ep) (s_EndpointName ep))"
  define possibleRoutes where "possibleRoutes = filter P [0 ..< length routeList]"
  from assms Some have ne: "possibleRoutes \<noteq> []"
    and r: "route = routeList ! (possibleRoutes ! Intn draw (length possibleRoutes))"
    by (auto simp add: findService_def Let_def possibleRoutes_def P_def split: if_splits)
  from ne have "Intn draw (length possibleRoutes) < length possibleRoutes"
    by (simp add: Intn_def)
  then have "possibleRoutes ! Intn draw (length possibleRoutes) \<in> set possibleRoutes"
    by (rule nth_mem)
  then have "possibleRoutes ! Intn draw (length possibleRoutes) < length routeList"
    and "P (possibleRoutes ! Intn draw (length possibleRoutes))"
    by (auto simp add: possibleRoutes_def)
  with r Some show ?thesis
    by (auto simp add: P_def)
qed

lemma findService_candidate:
  assumes "m s (s_Name ep) = Some routeList" and "route \<in> set routeList"
    and "HasEndpoint (heap s route) (s_EndpointType ep) (s_EndpointName ep)"
  shows "\<exists>selected. findService s ep draw = Inr selected"
proof -
  from assms(2) obtain i where i: "i < length routeList" "routeList ! i = route"
    by (auto simp add: in_set_conv_nth)
  with assms(3) have "i \<in> set (filter (\<lambda>i. HasEndpoint (heap s (routeList ! i)) (s_EndpointType ep) (s_EndpointName ep)) [0 ..< length routeList])"
    by simp
  then have "filter (\<lambda>i. HasEndpoint (heap s (routeList ! i)) (s_EndpointType ep) (s_EndpointName ep)) [0 ..< length routeList] \<noteq> []"
    by (metis empty_iff list.set(1))
  with assms(1) i(1) show ?thesis
    by (auto simp add: findService_def Let_def)
qed

lemma findService_no_candidate:
  assumes "m s (s_Name ep) = None \<or>
     (\<exists>routeList. m s (s_Name ep) = Some routeList \<and>
        (\<forall>route \<in> set routeList. \<not> HasEndpoint (heap s route) (s_EndpointType ep) (s_EndpointName ep)))"
  shows "\<exists>err. findService s ep draw = Inl err"
proof (cases "findService s ep draw")
  case (Inl err)
  then show ?thesis by blast
next
  case (Inr route)
  from findService_selected [OF Inr] assms show ?thesis by auto
qed

lemma Send_delivers:
  "findService s ep draw = Inr route \<Longrightarrow>
   Send s ep message draw =
     (s\<lparr>heap := (heap s)(route := (heap s route)\<lparr>r_sent := r_sent (heap s route) @ [message]\<rparr>)\<rparr>,
      Inr (r_Session (heap s route)))"
  by (simp add: Send_def route_Send_def)

lemma Send_fails:
  "findService s ep draw = Inl err \<Longrightarrow> Send s ep message draw = (s, Inl err)"
  by (simp add: Send_def)

text \<open>
  Claim C1. \<open>Send\<close> fails, changing nothing and returning no session id, when no
  entry exists under the searched name or no route of the entry has the searched
  endpoint. Otherwise it returns the session id of a route that is in the entry under
  that name and has the endpoint, and the message is appended to what was sent to that
  route; nothing else changes. This holds for every value the random generator may give.
\<close>

theorem Send_no_route_or_delivers:
  "((m s (s_Name ep) = None \<or>
     (\<exists>routeList. m s (s_Name ep) = Some routeList \<and>
        (\<forall>route \<in> set routeList. \<not> HasEndpoint (heap s route) (s_EndpointType ep) (s_EndpointName ep))))
    \<longrightarrow> (\<exists>err. Send s ep message draw = (s, Inl err))) \<and>
   ((\<exists>routeList. m s (s_Name ep) = Some routeList \<and>
        (\<exists>route \<in> set routeList. HasEndpoint (heap s route) (s_EndpointType ep) (s_EndpointName ep)))
    \<longrightarrow> (\<exists>routeList route. m s (s_Name ep) = Some routeList \<and> route \<in> set routeList \<and>
           HasEndpoint (heap s route) (s_EndpointType ep) (s_EndpointName ep) \<and>
           Send s ep message draw =
             (s\<lparr>heap := (heap s)(route := (heap s route)\<lparr>r_sent := r_sent (heap s route) @ [message]\<rparr>)\<rparr>,
              Inr (GetSession (heap s route)))))"
proof (intro conjI impI)
  assume "m s (s_Name ep) = None \<or>
     (\<exists>routeList. m s (s_Name ep) = Some routeList \<and>
        (\<forall>route \<in> set routeList. \<not> HasEndpoint (heap s route) (s_EndpointType ep) (s_EndpointName ep)))"
  from findService_no_candidate [OF this] obtain err where "findService s ep draw = Inl err"
    by blast
  then show "\<exists>err. Send s ep message draw = (s, Inl err)"
    by (auto simp add: Send_fails)
next
  assume "\<exists>routeList. m s (s_Name ep) = Some routeList \<and>
        (\<exists>route \<in> set routeList. HasEndpoint (heap s route) (s_EndpointType ep) (s_EndpointName ep))"
  then obtain selected where sel: "findService s ep draw = Inr selected"
    using findService_candidate by blast
  from findService_selected [OF sel] Send_delivers [OF sel]
  show "\<exists>routeList route. m s (s_Name ep) = Some routeList \<and> route \<in> set routeList \<and>
           HasEndpoint (heap s route) (s_EndpointType ep) (s_EndpointName ep) \<and>
           Send s ep message draw =
             (s\<lparr>heap := (heap s)(route := (heap s route)\<lparr>r_sent := r_sent (heap s route) @ [message]\<rparr>)\<rparr>,
              Inr (GetSession (heap s route)))"
    by (auto simp add: GetSession_def)
qed

theorem Send_no_route_or_delivers_witness:
  "m no_routes (s_Name example_search) = None \<and>
   (\<exists>err. Send no_routes example_search ''hello'' 7 = (no_routes, Inl err)) \<and>
   m (Add no_routes 0) (s_Name example_search) = Some [0] \<and>
   HasEndpoint (heap (Add no_routes 0) 0) (s_EndpointType example_search) (s_EndpointName example_search) \<and>
   snd (Send (Add no_routes 0) example_search ''hello'' 7) = Inr ''s1'' \<and>
   r_sent (heap (fst (Send (Add no_routes 0) example_search ''hello'' 7)) 0) = [''hello'']"
proof -
  have a: "m no_routes (s_Name example_search) = None"
    by (simp add: no_routes_def MakeRoutes_def)
  have b: "m (Add no_routes 0) (s_Name example_search) = Some [0]"
    by (simp add: Add_def no_routes_def MakeRoutes_def example_heap_def GetName_def Let_def
        example_search_def)
  have c: "HasEndpoint (heap (Add no_routes 0) 0) (s_EndpointType example_search) (s_EndpointName example_search)"
    by (simp add: Add_def no_routes_def MakeRoutes_def example_heap_def Let_def
        example_search_def HasEndpoint_def)
  have h: "heap (Add no_routes 0) 0 = example_heap 0"
    by (simp add: Add_def no_routes_def MakeRoutes_def Let_def)
  from Send_no_route_or_delivers [of no_routes example_search "''hello''" 7] a
  have d: "\<exists>err. Send no_routes example_search ''hello'' 7 = (no_routes, Inl err)"
    by simp
  from Send_no_route_or_delivers [of "Add no_routes 0" example_search "''hello''" 7] b c
  have e: "Send (Add no_routes 0) example_search ''hello'' 7 =
     ((Add no_routes 0)\<lparr>heap := (heap (Add no_routes 0))
         (0 := (heap (Add no_routes 0) 0)\<lparr>r_sent := r_sent (heap (Add no_routes 0) 0) @ [''hello'']\<rparr>)\<rparr>,
      Inr (GetSession (heap (Add no_routes 0) 0)))"
    by auto
  have "snd (Send (Add no_routes 0) example_search ''hello'' 7) = Inr ''s1''"
    unfolding e by (simp add: h GetSession_def example_heap_def)
  moreover have "r_sent (heap (fst (Send (Add no_routes 0) example_search ''hello'' 7)) 0) = [''hello'']"
    unfolding e by (simp add: h example_heap_def)
  ultimately show ?thesis using a b c d by simp
qed

text \<open>
  Claim C4. A route that \<open>findService\<close> selects has an endpoint of the searched type
  and name that is configured, so a route with no such endpoint is never selected. When
  routes exist under the searched name and none of them has such an endpoint, the result
  is the error "no such route exists or all are unconfigured", and \<open>Send\<close> returns it
  and sends nothing.
\<close>

theorem findService_skips_unconfigured:
  "(findService s ep draw = Inr route \<longrightarrow>
      (\<exists>e \<in> set (GetEndpoints (heap s route)).
          ep_Type e = s_EndpointType ep \<and> ep_Name e = s_EndpointName ep \<and> ep_Configured e)) \<and>
   (m s (s_Name ep) = Some routeList \<and> routeList \<noteq> [] \<and>
    (\<forall>route \<in> set routeList.
        \<not> (\<exists>e \<in> set (GetEndpoints (heap s route)).
             ep_Type e = s_EndpointType ep \<and> ep_Name e = s_EndpointName ep \<and> ep_Configured e))
    \<longrightarrow> findService s ep draw = Inl NoSuchRouteOrUnconfigured \<and>
        Send s ep message draw = (s, Inl NoSuchRouteOrUnconfigured))"
proof -
  have sel: "\<exists>e \<in> set (GetEndpoints (heap s route)).
          ep_Type e = s_EndpointType ep \<and> ep_Name e = s_EndpointName ep \<and> ep_Configured e"
    if "findService s ep draw = Inr route"
    using findService_selected [OF that]
    by (auto simp add: HasEndpoint_def GetEndpoints_def list_ex_iff)
  have none: "findService s ep draw = Inl NoSuchRouteOrUnconfigured \<and>
        Send s ep message draw = (s, Inl NoSuchRouteOrUnconfigured)"
    if a: "m s (s_Name ep) = Some routeList \<and> routeList \<noteq> [] \<and>
    (\<forall>route \<in> set routeList.
        \<not> (\<exists>e \<in> set (GetEndpoints (heap s route)).
             ep_Type e = s_EndpointType ep \<and> ep_Name e = s_EndpointName ep \<and> ep_Configured e))"
  proof -
    from a have "\<forall>i < length routeList.
        \<not> HasEndpoint (heap s (routeList ! i)) (s_EndpointType ep) (s_EndpointName ep)"
      by (auto simp add: HasEndpoint_def GetEndpoints_def list_ex_iff)
    then have "filter (\<lambda>i. HasEndpoint (heap s (routeList ! i)) (s_EndpointType ep) (s_EndpointName ep))
        [0 ..< length routeList] = []"
      by (simp add: filter_empty_conv)
    with a have f: "findService s ep draw = Inl NoSuchRouteOrUnconfigured"
      by (simp add: findService_def Let_def)
    from f Send_fails [OF f] show ?thesis by simp
  qed
  from sel none show ?thesis by blast
qed

theorem findService_skips_unconfigured_witness:
  "findService (Add no_routes 0) example_search 3 = Inr 0 \<and>
   ep_Configured (hd (GetEndpoints (heap (Add no_routes 0) 0))) \<and>
   m (Add no_routes 1) (s_Name example_search) = Some [1] \<and>
   \<not> ep_Configured (hd (GetEndpoints (heap (Add no_routes 1) 1))) \<and>
   findService (Add no_routes 1) example_search 3 = Inl NoSuchRouteOrUnconfigured \<and>
   Send (Add no_routes 1) example_search ''hello'' 3 = (Add no_routes 1, Inl NoSuchRouteOrUnconfigured)"
proof -
  have a: "findService (Add no_routes 0) example_search 3 = Inr 0"
    by (simp add: findService_def Add_def no_routes_def MakeRoutes_def example_heap_def
        GetName_def Let_def example_search_def HasEndpoint_def Intn_def)
  have b: "m (Add no_routes 1) (s_Name example_search) = Some [1]"
    by (simp add: Add_def no_routes_def MakeRoutes_def example_heap_def GetName_def Let_def
        example_search_def)
  have h: "heap (Add no_routes 1) = example_heap" "heap (Add no_routes 0) = example_heap"
    by (simp_all add: Add_def no_routes_def MakeRoutes_def Let_def)
  have c: "\<not> ep_Configured (hd (GetEndpoints (heap (Add no_routes 1) 1)))"
    "ep_Configured (hd (GetEndpoints (heap (Add no_routes 0) 0)))"
    by (simp_all add: Add_heap no_routes_def MakeRoutes_def GetEndpoints_def example_heap_def)
  from findService_skips_unconfigured [of "Add no_routes 1" example_search 3 0 "[1]" "''hello''"] b
  have "findService (Add no_routes 1) example_search 3 = Inl NoSuchRouteOrUnconfigured \<and>
        Send (Add no_routes 1) example_search ''hello'' 3 = (Add no_routes 1, Inl NoSuchRouteOrUnconfigured)"
    by (simp add: Add_heap no_routes_def MakeRoutes_def GetEndpoints_def example_heap_def)
  with a b c show ?thesis by simp
qed

subsection \<open>Adding and removing routes\<close>

text \<open>
  Claim C5, as amended. \<open>Add\<close> followed by \<open>Remove\<close> of the same route restores the
  gauge, and leaves under the route's name the list that was there before, the empty list
  when there was no entry; every other entry of the map is as before. When an entry
  existed under the route's name, the whole map is as before.
\<close>

theorem Add_then_Remove:
  "m (Remove (Add s state) state) =
     (m s)(GetName (heap s state) \<mapsto>
        (case m s (GetName (heap s state)) of None \<Rightarrow> [] | Some l \<Rightarrow> l)) \<and>
   connectedRoutesGauge (Remove (Add s state) state) = connectedRoutesGauge s \<and>
   (m s (GetName (heap s state)) \<noteq> None \<longrightarrow> m (Remove (Add s state) state) = m s)"
proof -
  define name where "name = r_Name (heap s state)"
  define l where "l = (case m s name of None \<Rightarrow> [] | Some l \<Rightarrow> l)"
  have a: "m (Add s state) (r_Name (heap (Add s state) state)) = Some (l @ [state])"
    by (simp add: Add_m Add_heap l_def name_def)
  have b: "state \<in> set (l @ [state])" by simp
  from Remove_found [OF a b] obtain k where
    k: "k < length (l @ [state])" "(l @ [state]) ! k = state"
    and mm: "m (Remove (Add s state) state) =
      (m (Add s state))(r_Name (heap (Add s state) state) \<mapsto>
         take (length (l @ [state]) - 1)
           ((l @ [state])[k := (l @ [state]) ! (length (l @ [state]) - 1)]))"
    and gg: "connectedRoutesGauge (Remove (Add s state) state) =
      (connectedRoutesGauge (Add s state))
        (r_Name (heap (Add s state) state) :=
           connectedRoutesGauge (Add s state) (r_Name (heap (Add s state) state)) - 1)"
    by blast
  have m1: "m (Remove (Add s state) state) = (m s)(name \<mapsto> l)"
    unfolding mm drop_own_last [OF k] by (simp add: Add_m Add_heap name_def)
  have g1: "connectedRoutesGauge (Remove (Add s state) state) = connectedRoutesGauge s"
    unfolding gg by (simp add: Add_gauge Add_heap fun_eq_iff)
  have m2: "m s name \<noteq> None \<longrightarrow> (m s)(name \<mapsto> l) = m s"
    by (auto simp add: l_def fun_eq_iff)
  from m1 g1 m2 show ?thesis
    by (simp add: GetName_def name_def l_def)
qed

theorem Add_then_Remove_witness:
  "m (Add no_routes 1) (GetName (heap (Add no_routes 1) 0)) \<noteq> None \<and>
   m (Remove (Add (Add no_routes 1) 0) 0) = m (Add no_routes 1) \<and>
   connectedRoutesGauge (Remove (Add (Add no_routes 1) 0) 0) = connectedRoutesGauge (Add no_routes 1)"
  using Add_then_Remove [of "Add no_routes 1" 0]
  by (simp add: Add_def no_routes_def MakeRoutes_def example_heap_def GetName_def Let_def)

text \<open>
  On the empty table, adding and removing a route of \<open>a1\<close> leaves an entry for
  \<open>a1\<close> that holds the empty list, so the map is not the one before.
\<close>

theorem Add_then_Remove_counterexample:
  "m (Remove (Add no_routes 0) 0) \<noteq> m no_routes"
proof -
  have "m (Remove (Add no_routes 0) 0) ''a1'' = Some []"
    by (simp add: Remove_def Add_def no_routes_def MakeRoutes_def example_heap_def GetName_def
        GetEndpoints_def Close_def Let_def sliceIndex_def sliceIndex_from.simps)
  moreover have "m no_routes ''a1'' = None"
    by (simp add: no_routes_def MakeRoutes_def)
  ultimately show ?thesis by (metis option.distinct(1))
qed

text \<open>
  Claim C7. When no entry exists under the route's name, or the entry does not hold the
  route, \<open>Remove\<close> leaves the map and the gauge as they were and writes one error to
  the log; the route itself has been closed.
\<close>

theorem Remove_unknown_route_noop:
  "m s (GetName (heap s state)) = None \<or>
   (\<exists>routeList. m s (GetName (heap s state)) = Some routeList \<and> state \<notin> set routeList) \<Longrightarrow>
   m (Remove s state) = m s \<and>
   connectedRoutesGauge (Remove s state) = connectedRoutesGauge s \<and>
   (\<exists>text. logs (Remove s state) = logs s @ [Errorf text]) \<and>
   heap (Remove s state) = (heap s)(state := Close (heap s state))"
  unfolding GetName_def
  by (auto simp add: Remove_absent_name Remove_absent_route)

theorem Remove_unknown_route_noop_witness:
  "m no_routes (GetName (heap no_routes 0)) = None \<and>
   m (Remove no_routes 0) = m no_routes \<and>
   connectedRoutesGauge (Remove no_routes 0) = connectedRoutesGauge no_routes \<and>
   m (Add no_routes 1) (GetName (heap (Add no_routes 1) 0)) = Some [1] \<and>
   0 \<notin> set [1::nat] \<and>
   m (Remove (Add no_routes 1) 0) = m (Add no_routes 1) \<and>
   connectedRoutesGauge (Remove (Add no_routes 1) 0) = connectedRoutesGauge (Add no_routes 1)"
  using Remove_unknown_route_noop [of no_routes 0] Remove_unknown_route_noop [of "Add no_routes 1" 0]
  by (simp add: Add_def no_routes_def MakeRoutes_def example_heap_def GetName_def Let_def)


section \<open>Properties of the Kubernetes endpoint\<close>

subsection \<open>Comparing contexts\<close>

lemma x509CertEqual_iff:
  "x509CertEqual s1 s2 =
     (s1 = None \<and> s2 = None \<or> (\<exists>c1 c2. s1 = Some c1 \<and> s2 = Some c2 \<and> x509_Equal c1 c2))"
  by (cases s1; cases s2) (simp_all add: x509CertEqual_def)

lemma tlsCertEqual_True_iff:
  "(tlsCertEqual s1 s2 = Return True) =
     (s1 = None \<and> s2 = None \<or>
      (\<exists>c1 c2. s1 = Some c1 \<and> s2 = Some c2 \<and> Certificate c1 \<noteq> [] \<and> Certificate c2 \<noteq> [] \<and>
         hd (Certificate c1) = hd (Certificate c2)))"
  by (cases s1; cases s2) (simp_all add: tlsCertEqual_def hd_conv_nth)

lemma tlsCertEqual_Panic_iff:
  "(\<exists>p. tlsCertEqual s1 s2 = Panic p) =
     (\<exists>c1 c2. s1 = Some c1 \<and> s2 = Some c2 \<and> (Certificate c1 = [] \<or> Certificate c2 = []))"
  by (cases s1; cases s2) (simp_all add: tlsCertEqual_def)

lemma isSameAs_agent_eq: "isSameAs_agent scf scf2 = isSameAs scf scf2"
proof (cases "username scf \<noteq> username scf2 \<or> serverURL scf \<noteq> serverURL scf2
         \<or> token scf \<noteq> token scf2 \<or> insecure scf \<noteq> insecure scf2")
  case True
  then show ?thesis by (simp add: isSameAs_agent_def isSameAs_def)
next
  case False
  then have fields: "username scf = username scf2" "serverURL scf = serverURL scf2"
    "token scf = token scf2" "insecure scf = insecure scf2"
    by simp_all
  show ?thesis
    unfolding isSameAs_agent_def isSameAs_def
    using fields
    by (cases "serverCA scf"; cases "serverCA scf2"; cases "clientCert scf"; cases "clientCert scf2")
       (simp_all add: x509CertEqual_def tlsCertEqual_def)
qed

lemma isSameAs_True_iff:
  "(isSameAs scf scf2 = Return True) =
     (username scf = username scf2 \<and> serverURL scf = serverURL scf2 \<and>
      token scf = token scf2 \<and> insecure scf = insecure scf2 \<and>
      (serverCA scf = None \<and> serverCA scf2 = None \<or>
       (\<exists>c1 c2. serverCA scf = Some c1 \<and> serverCA scf2 = Some c2 \<and> x509_Equal c1 c2)) \<and>
      (clientCert scf = None \<and> clientCert scf2 = None \<or>
       (\<exists>c1 c2. clientCert scf = Some c1 \<and> clientCert scf2 = Some c2 \<and>
          Certificate c1 \<noteq> [] \<and> Certificate c2 \<noteq> [] \<and>
          hd (Certificate c1) = hd (Certificate c2))))"
proof -
  have "(isSameAs scf scf2 = Return True) =
     (username scf = username scf2 \<and> serverURL scf = serverURL scf2 \<and>
      token scf = token scf2 \<and> insecure scf = insecure scf2 \<and>
      x509CertEqual (serverCA scf) (serverCA scf2) \<and>
      tlsCertEqual (clientCert scf) (clientCert scf2) = Return True)"
    by (simp add: isSameAs_def)
  then show ?thesis
    by (simp only: x509CertEqual_iff tlsCertEqual_True_iff)
qed

lemma ticker_cases:
  "updateServerContextTicker ke saf = Return ke' \<Longrightarrow>
     (isSameAs (f ke) saf = Return False \<and> ke' = ke\<lparr>f := saf\<rparr>) \<or>
     (isSameAs (f ke) saf = Return True \<and> ke' = ke)"
  by (cases "isSameAs (f ke) saf") (auto simp add: updateServerContextTicker_def split: if_splits)

text \<open>
  Claim C8. \<open>isSameAs\<close> returns true exactly when the two contexts have the same
  username, server URL, token and insecure flag, their server CA certificates are both
  absent or equal, and their client certificates are both absent or both have a first
  certificate with the same DER bytes. The function of app/agent/kubernetes.go gives the
  same result as the one of package serviceconfig. A round of the refresh worker that
  returns has replaced the stored context by the loaded one when the comparison returned
  false, and has left the endpoint as it was when the comparison returned true; these are
  the only cases.
\<close>

theorem isSameAs_structural:
  "((isSameAs scf scf2 = Return True) =
     (username scf = username scf2 \<and> serverURL scf = serverURL scf2 \<and>
      token scf = token scf2 \<and> insecure scf = insecure scf2 \<and>
      (serverCA scf = None \<and> serverCA scf2 = None \<or>
       (\<exists>c1 c2. serverCA scf = Some c1 \<and> serverCA scf2 = Some c2 \<and> x509_Equal c1 c2)) \<and>
      (clientCert scf = None \<and> clientCert scf2 = None \<or>
       (\<exists>c1 c2. clientCert scf = Some c1 \<and> clientCert scf2 = Some c2 \<and>
          Certificate c1 \<noteq> [] \<and> Certificate c2 \<noteq> [] \<and>
          hd (Certificate c1) = hd (Certificate c2))))) \<and>
   isSameAs_agent scf scf2 = isSameAs scf scf2 \<and>
   (updateServerContextTicker ke saf = Return ke' \<longrightarrow>
      (isSameAs (f ke) saf = Return False \<and> ke' = ke\<lparr>f := saf\<rparr>) \<or>
      (isSameAs (f ke) saf = Return True \<and> ke' = ke)) \<and>
   (isSameAs (f ke) saf = Return False \<longrightarrow> updateServerContextTicker ke saf = Return (ke\<lparr>f := saf\<rparr>)) \<and>
   (isSameAs (f ke) saf = Return True \<longrightarrow> updateServerContextTicker ke saf = Return ke) \<and>
   updateServerContextTicker_agent ke saf = updateServerContextTicker ke saf"
proof (intro conjI)
  show "isSameAs (f ke) saf = Return False \<longrightarrow> updateServerContextTicker ke saf = Return (ke\<lparr>f := saf\<rparr>)"
    by (simp add: updateServerContextTicker_def)
  show "isSameAs (f ke) saf = Return True \<longrightarrow> updateServerContextTicker ke saf = Return ke"
    by (simp add: updateServerContextTicker_def)
  show "updateServerContextTicker_agent ke saf = updateServerContextTicker ke saf"
    by (simp add: updateServerContextTicker_def updateServerContextTicker_agent_def isSameAs_agent_eq)
  show "isSameAs_agent scf scf2 = isSameAs scf scf2"
    by (rule isSameAs_agent_eq)
  show "updateServerContextTicker ke saf = Return ke' \<longrightarrow>
      (isSameAs (f ke) saf = Return False \<and> ke' = ke\<lparr>f := saf\<rparr>) \<or>
      (isSameAs (f ke) saf = Return True \<and> ke' = ke)"
    using ticker_cases [of ke saf ke'] by blast
  show "(isSameAs scf scf2 = Return True) =
     (username scf = username scf2 \<and> serverURL scf = serverURL scf2 \<and>
      token scf = token scf2 \<and> insecure scf = insecure scf2 \<and>
      (serverCA scf = None \<and> serverCA scf2 = None \<or>
       (\<exists>c1 c2. serverCA scf = Some c1 \<and> serverCA scf2 = Some c2 \<and> x509_Equal c1 c2)) \<and>
      (clientCert scf = None \<and> clientCert scf2 = None \<or>
       (\<exists>c1 c2. clientCert scf = Some c1 \<and> clientCert scf2 = Some c2 \<and>
          Certificate c1 \<noteq> [] \<and> Certificate c2 \<noteq> [] \<and>
          hd (Certificate c1) = hd (Certificate c2))))"
    by (rule isSameAs_True_iff)
qed

theorem isSameAs_structural_witness:
  "isSameAs example_context example_context = Return True \<and>
   isSameAs_agent example_context example_context = Return True \<and>
   updateServerContextTicker example_endpoint example_context = Return example_endpoint \<and>
   isSameAs example_context (example_context\<lparr>token := ''new''\<rparr>) = Return False \<and>
   updateServerContextTicker example_endpoint (example_context\<lparr>token := ''new''\<rparr>) =
     Return (example_endpoint\<lparr>f := example_context\<lparr>token := ''new''\<rparr>\<rparr>)"
proof -
  note same = isSameAs_structural [of example_context example_context example_endpoint
      example_context example_endpoint]
  note changed = isSameAs_structural [of example_context example_context example_endpoint
      "example_context\<lparr>token := ''new''\<rparr>" example_endpoint]
  have e: "f example_endpoint = example_context"
    by (simp add: example_endpoint_def)
  have "username example_context = username example_context \<and>
      serverURL example_context = serverURL example_context \<and>
      token example_context = token example_context \<and>
      insecure example_context = insecure example_context \<and>
      (serverCA example_context = None \<and> serverCA example_context = None \<or>
       (\<exists>c1 c2. serverCA example_context = Some c1 \<and> serverCA example_context = Some c2 \<and>
          x509_Equal c1 c2)) \<and>
      (clientCert example_context = None \<and> clientCert example_context = None \<or>
       (\<exists>c1 c2. clientCert example_context = Some c1 \<and> clientCert example_context = Some c2 \<and>
          Certificate c1 \<noteq> [] \<and> Certificate c2 \<noteq> [] \<and>
          hd (Certificate c1) = hd (Certificate c2)))"
    by (simp add: example_context_def x509_Equal_def)
  with same [THEN conjunct1] have t: "isSameAs example_context example_context = Return True"
    by (rule iffD2)
  from same [THEN conjunct2, THEN conjunct1] t
  have a: "isSameAs_agent example_context example_context = Return True"
    by simp
  from t e have t': "isSameAs (f example_endpoint) example_context = Return True"
    by simp
  from same [THEN conjunct2, THEN conjunct2, THEN conjunct2, THEN conjunct2, THEN conjunct1] t'
  have b: "updateServerContextTicker example_endpoint example_context = Return example_endpoint"
    by (rule mp)
  have n: "isSameAs example_context (example_context\<lparr>token := ''new''\<rparr>) = Return False"
    by (simp add: isSameAs_def example_context_def)
  with e have n': "isSameAs (f example_endpoint) (example_context\<lparr>token := ''new''\<rparr>) = Return False"
    by simp
  from changed [THEN conjunct2, THEN conjunct2, THEN conjunct2, THEN conjunct1] n'
  have c: "updateServerContextTicker example_endpoint (example_context\<lparr>token := ''new''\<rparr>) =
     Return (example_endpoint\<lparr>f := example_context\<lparr>token := ''new''\<rparr>\<rparr>)"
    by (rule mp)
  from t a b n c show ?thesis by (intro conjI)
qed

subsection \<open>Loading the service account\<close>

lemma makeServerContextFields_eq: "makeServerContextFields ke = f ke"
  by (simp add: makeServerContextFields_def)

lemma loadServiceAccount_success:
  assumes "loadServiceAccount os = Return (Inr c)"
  shows "\<exists>tokenFile caFile der serverCert.
      ReadFile os ''/var/run/secrets/kubernetes.io/serviceaccount/token'' = Inr tokenFile \<and>
      ReadFile os ''/var/run/secrets/kubernetes.io/serviceaccount/ca.crt'' = Inr caFile \<and>
      pem_Decode os caFile = Some der \<and>
      x509_ParseCertificate os der = Inr serverCert \<and>
      Getenv os ''KUBERNETES_SERVICE_PORT'' \<noteq> [] \<and>
      Getenv os ''KUBERNETES_SERVICE_HOST'' \<noteq> [] \<and>
      c = \<lparr>username = ''ServiceAccount'',
           serverURL = ''https://'' @ Getenv os ''KUBERNETES_SERVICE_HOST'' @ '':''
                         @ Getenv os ''KUBERNETES_SERVICE_PORT'',
           serverCA = Some serverCert,
           clientCert = None,
           token = tokenFile,
           insecure = True\<rparr>"
proof (cases "ReadFile os ''/var/run/secrets/kubernetes.io/serviceaccount/token''")
  case (Inl err)
  with assms show ?thesis by (simp add: loadServiceAccount_def)
next
  case tok: (Inr tokenFile)
  show ?thesis
  proof (cases "ReadFile os ''/var/run/secrets/kubernetes.io/serviceaccount/ca.crt''")
    case (Inl err)
    with assms tok show ?thesis by (simp add: loadServiceAccount_def)
  next
    case ca: (Inr caFile)
    show ?thesis
    proof (cases "pem_Decode os caFile")
      case None
      with assms tok ca show ?thesis by (simp add: loadServiceAccount_def)
    next
      case pem: (Some der)
      show ?thesis
      proof (cases "x509_ParseCertificate os der")
        case (Inl err)
        with assms tok ca pem show ?thesis by (simp add: loadServiceAccount_def)
      next
        case (Inr serverCert)
        with assms tok ca pem show ?thesis
          by (simp add: loadServiceAccount_def Let_def split: if_splits)
      qed
    qed
  qed
qed

lemma loadServiceAccount_succeeds:
  assumes "ReadFile os ''/var/run/secrets/kubernetes.io/serviceaccount/token'' = Inr tokenFile"
    and "ReadFile os ''/var/run/secrets/kubernetes.io/serviceaccount/ca.crt'' = Inr caFile"
    and "pem_Decode os caFile = Some der"
    and "x509_ParseCertificate os der = Inr serverCert"
    and "Getenv os ''KUBERNETES_SERVICE_PORT'' \<noteq> []"
    and "Getenv os ''KUBERNETES_SERVICE_HOST'' \<noteq> []"
  shows "loadServiceAccount os = Return (Inr
          \<lparr>username = ''ServiceAccount'',
           serverURL = ''https://'' @ Getenv os ''KUBERNETES_SERVICE_HOST'' @ '':''
                         @ Getenv os ''KUBERNETES_SERVICE_PORT'',
           serverCA = Some serverCert,
           clientCert = None,
           token = tokenFile,
           insecure = True\<rparr>)"
  using assms by (simp add: loadServiceAccount_def Let_def)

text \<open>
  Claim C9. When \<open>loadServiceAccount\<close> succeeds, the token file and the CA file were
  read, the CA was decoded and parsed, both environment variables are set, and the
  context returned has the username \<open>ServiceAccount\<close>, the URL made of \<open>https://\<close>,
  the host, a colon and the port, the parsed CA, no client certificate, the content of
  the token file as token, and the insecure flag set. The TLS configuration that the
  executor builds from this context skips server verification although the CA is in its
  pool.
\<close>

theorem loadServiceAccount_insecure:
  "loadServiceAccount os = Return (Inr c) \<Longrightarrow>
     (\<exists>tokenFile caFile der serverCert.
        ReadFile os ''/var/run/secrets/kubernetes.io/serviceaccount/token'' = Inr tokenFile \<and>
        ReadFile os ''/var/run/secrets/kubernetes.io/serviceaccount/ca.crt'' = Inr caFile \<and>
        pem_Decode os caFile = Some der \<and>
        x509_ParseCertificate os der = Inr serverCert \<and>
        Getenv os ''KUBERNETES_SERVICE_PORT'' \<noteq> [] \<and>
        Getenv os ''KUBERNETES_SERVICE_HOST'' \<noteq> [] \<and>
        username c = ''ServiceAccount'' \<and>
        serverURL c = ''https://'' @ Getenv os ''KUBERNETES_SERVICE_HOST'' @ '':''
                        @ Getenv os ''KUBERNETES_SERVICE_PORT'' \<and>
        serverCA c = Some serverCert \<and>
        clientCert c = None \<and>
        token c = tokenFile \<and>
        insecure c = True \<and>
        executor_tlsConfig c =
          \<lparr>MinVersion = VersionTLS12, InsecureSkipVerify = True,
           RootCAs = Some [serverCert], Certificates = []\<rparr>)"
proof -
  assume "loadServiceAccount os = Return (Inr c)"
  from loadServiceAccount_success [OF this] obtain tokenFile caFile der serverCert where
    h: "ReadFile os ''/var/run/secrets/kubernetes.io/serviceaccount/token'' = Inr tokenFile"
      "ReadFile os ''/var/run/secrets/kubernetes.io/serviceaccount/ca.crt'' = Inr caFile"
      "pem_Decode os caFile = Some der"
      "x509_ParseCertificate os der = Inr serverCert"
      "Getenv os ''KUBERNETES_SERVICE_PORT'' \<noteq> []"
      "Getenv os ''KUBERNETES_SERVICE_HOST'' \<noteq> []"
    and c: "c = \<lparr>username = ''ServiceAccount'',
           serverURL = ''https://'' @ Getenv os ''KUBERNETES_SERVICE_HOST'' @ '':''
                         @ Getenv os ''KUBERNETES_SERVICE_PORT'',
           serverCA = Some serverCert,
           clientCert = None,
           token = tokenFile,
           insecure = True\<rparr>"
    by blast
  have "executor_tlsConfig c =
          \<lparr>MinVersion = VersionTLS12, InsecureSkipVerify = True,
           RootCAs = Some [serverCert], Certificates = []\<rparr>"
    by (simp add: c executor_tlsConfig_def Let_def)
  with h c show ?thesis
    by (intro exI [of _ tokenFile] exI [of _ caFile] exI [of _ der] exI [of _ serverCert]) simp
qed

theorem loadServiceAccount_insecure_witness:
  "loadServiceAccount example_os = Return (Inr
      \<lparr>username = ''ServiceAccount'', serverURL = ''https://10.0.0.1:443'',
       serverCA = Some \<lparr>Raw = ''der''\<rparr>, clientCert = None, token = ''tok'', insecure = True\<rparr>) \<and>
   InsecureSkipVerify (executor_tlsConfig
      \<lparr>username = ''ServiceAccount'', serverURL = ''https://10.0.0.1:443'',
       serverCA = Some \<lparr>Raw = ''der''\<rparr>, clientCert = None, token = ''tok'', insecure = True\<rparr>)"
proof -
  have l: "loadServiceAccount example_os = Return (Inr
      \<lparr>username = ''ServiceAccount'', serverURL = ''https://10.0.0.1:443'',
       serverCA = Some \<lparr>Raw = ''der''\<rparr>, clientCert = None, token = ''tok'', insecure = True\<rparr>)"
    by (simp add: loadServiceAccount_def example_os_def Let_def)
  from loadServiceAccount_insecure [OF l]
  have "InsecureSkipVerify (executor_tlsConfig
      \<lparr>username = ''ServiceAccount'', serverURL = ''https://10.0.0.1:443'',
       serverCA = Some \<lparr>Raw = ''der''\<rparr>, clientCert = None, token = ''tok'', insecure = True\<rparr>)"
    by auto
  with l show ?thesis by (intro conjI)
qed

subsection \<open>Executing a tunnelled request\<close>

lemma loop_shape:
  "\<exists>chunks. (\<forall>d \<in> set chunks. d \<noteq> [] \<and> length d \<le> 10240) \<and>
     fst (executeHTTPRequest_loop reqId body) =
       map (makeChunkedResponse reqId) chunks @
       (if snd (executeHTTPRequest_loop reqId body) = Returned \<and> read_end body \<noteq> Some Canceled
        then [makeChunkedResponse reqId emptyBytes] else [])"
proof (induction body)
  case Nil
  show ?case by (intro exI [of _ "[]"]) simp
next
  case (Cons r body)
  define own where "own = (if rd_data r = [] then [] else [rd_data r])"
  have sent: "(if length (rd_data r) > 0 then [makeChunkedResponse reqId (rd_data r)] else []) =
      map (makeChunkedResponse reqId) own"
    by (simp add: own_def)
  show ?case
  proof (cases "length (rd_data r) > 10240")
    case True
    then show ?thesis by (intro exI [of _ "[]"]) simp
  next
    case small: False
    then have own_ok: "\<forall>d \<in> set own. d \<noteq> [] \<and> length d \<le> 10240"
      by (simp add: own_def)
    show ?thesis
    proof (cases "rd_err r")
      case None
      from Cons.IH obtain chunks where
        c: "\<forall>d \<in> set chunks. d \<noteq> [] \<and> length d \<le> 10240"
        and e: "fst (executeHTTPRequest_loop reqId body) =
          map (makeChunkedResponse reqId) chunks @
          (if snd (executeHTTPRequest_loop reqId body) = Returned \<and> read_end body \<noteq> Some Canceled
           then [makeChunkedResponse reqId emptyBytes] else [])"
        by blast
      have st: "snd (executeHTTPRequest_loop reqId (r # body)) = snd (executeHTTPRequest_loop reqId body)"
        using small None by (simp add: Let_def split: prod.splits)
      have fr: "fst (executeHTTPRequest_loop reqId (r # body)) =
          map (makeChunkedResponse reqId) own @ fst (executeHTTPRequest_loop reqId body)"
        using small None by (simp add: Let_def sent [symmetric] split: prod.splits)
      have re: "read_end (r # body) = read_end body"
        using None by simp
      from c own_ok have "\<forall>d \<in> set (own @ chunks). d \<noteq> [] \<and> length d \<le> 10240"
        by auto
      moreover have "fst (executeHTTPRequest_loop reqId (r # body)) =
          map (makeChunkedResponse reqId) (own @ chunks) @
          (if snd (executeHTTPRequest_loop reqId (r # body)) = Returned \<and> read_end (r # body) \<noteq> Some Canceled
           then [makeChunkedResponse reqId emptyBytes] else [])"
        unfolding fr st re e by simp
      ultimately show ?thesis by blast
    next
      case (Some err)
      then have re: "read_end (r # body) = Some err" by simp
      have "fst (executeHTTPRequest_loop reqId (r # body)) =
          map (makeChunkedResponse reqId) own @
          (if snd (executeHTTPRequest_loop reqId (r # body)) = Returned \<and> read_end (r # body) \<noteq> Some Canceled
           then [makeChunkedResponse reqId emptyBytes] else [])"
        unfolding re using small Some by (simp add: Let_def sent [symmetric])
      with own_ok show ?thesis by blast
    qed
  qed
qed

lemma loop_status:
  "\<forall>r \<in> set body. length (rd_data r) \<le> 10240 \<Longrightarrow>
   snd (executeHTTPRequest_loop reqId body) = (if read_end body = None then Reading else Returned)"
proof (induction body)
  case Nil
  show ?case by simp
next
  case (Cons r body)
  then have ih: "snd (executeHTTPRequest_loop reqId body) = (if read_end body = None then Reading else Returned)"
    and small: "\<not> length (rd_data r) > 10240"
    by simp_all
  show ?case
  proof (cases "rd_err r")
    case None
    with small have "snd (executeHTTPRequest_loop reqId (r # body)) = snd (executeHTTPRequest_loop reqId body)"
      by (simp add: Let_def split: prod.splits)
    moreover from None have "read_end (r # body) = read_end body" by simp
    ultimately show ?thesis using ih by simp
  next
    case (Some err)
    with small show ?thesis by (simp add: Let_def)
  qed
qed

lemma loop_eof_instead:
  "read_end body \<noteq> Some Canceled \<Longrightarrow>
   executeHTTPRequest_loop reqId (map (\<lambda>r. if rd_err r = None then r else r\<lparr>rd_err := Some EOF\<rparr>) body) =
   executeHTTPRequest_loop reqId body"
proof (induction body)
  case Nil
  show ?case by simp
next
  case (Cons r body)
  show ?case
  proof (cases "rd_err r")
    case None
    with Cons show ?thesis by (simp add: Let_def)
  next
    case (Some err)
    with Cons.prems have "err \<noteq> Canceled" by simp
    with Some show ?thesis by (simp add: Let_def)
  qed
qed

lemma executeHTTPRequest_build_fails:
  "NewRequestWithContext http (req_method req) (serverURL (f ke) @ req_URI req) (req_body req) = Inl err \<Longrightarrow>
   executeHTTPRequest http ke req = ([makeBadGatewayResponse (req_id req)], Returned)"
  by (simp add: executeHTTPRequest_def makeServerContextFields_eq Let_def)

lemma executeHTTPRequest_do_fails:
  "NewRequestWithContext http (req_method req) (serverURL (f ke) @ req_URI req) (req_body req) = Inr httpRequest \<Longrightarrow>
   Do http (executor_transport (f ke)) (executeHTTPRequest_headers http (f ke) req httpRequest) = Inl err \<Longrightarrow>
   executeHTTPRequest http ke req = ([makeBadGatewayResponse (req_id req)], Returned)"
  by (simp add: executeHTTPRequest_def makeServerContextFields_eq Let_def)

lemma executeHTTPRequest_do_succeeds:
  "NewRequestWithContext http (req_method req) (serverURL (f ke) @ req_URI req) (req_body req) = Inr httpRequest \<Longrightarrow>
   Do http (executor_transport (f ke)) (executeHTTPRequest_headers http (f ke) req httpRequest) = Inr get \<Longrightarrow>
   executeHTTPRequest http ke req =
     (makeResponse (req_id req) get # fst (executeHTTPRequest_loop (req_id req) (Body get)),
      snd (executeHTTPRequest_loop (req_id req) (Body get)))"
  by (simp add: executeHTTPRequest_def makeServerContextFields_eq Let_def split: prod.splits)

lemma ExecuteHTTPRequest_build_fails:
  "NewRequestWithContext http (req_method req) (serverURL (f ke) @ req_URI req) (req_body req) = Inl err \<Longrightarrow>
   ExecuteHTTPRequest http tunnel ke req = ([MakeBadGatewayResponse (req_id req)], Returned)"
  by (simp add: ExecuteHTTPRequest_def makeServerContextFields_eq Let_def)

lemma ExecuteHTTPRequest_copy_fails:
  "NewRequestWithContext http (req_method req) (serverURL (f ke) @ req_URI req) (req_body req) = Inr httpRequest \<Longrightarrow>
   CopyHeaders tunnel (req_headers req) httpRequest = Inl err \<Longrightarrow>
   ExecuteHTTPRequest http tunnel ke req = ([MakeBadGatewayResponse (req_id req)], Returned)"
  by (simp add: ExecuteHTTPRequest_def makeServerContextFields_eq Let_def)

lemma example_build:
  "NewRequestWithContext (example_http answer) (req_method example_request)
     (serverURL (f example_endpoint) @ req_URI example_request) (req_body example_request) = Inr []"
  by (simp add: example_http_def example_request_def)

lemma example_do:
  "Do (example_http answer) tr r = answer"
  by (simp add: example_http_def)

text \<open>
  Claim C6. When building the outbound request fails, the executor of
  app/agent/kubernetes.go and the one of package serviceconfig each send one frame, the
  bad-gateway response with the id of the request, and return. The same holds for the
  first when the outbound call fails, and for the second when copying the headers fails.
  The bad-gateway response is an \<open>HttpTunnelResponse\<close> with status 502.
\<close>

theorem executor_bad_gateway:
  "(NewRequestWithContext http (req_method req) (serverURL (f ke) @ req_URI req) (req_body req) = Inl err
      \<longrightarrow> executeHTTPRequest http ke req = ([makeBadGatewayResponse (req_id req)], Returned) \<and>
          ExecuteHTTPRequest http tunnel ke req = ([MakeBadGatewayResponse (req_id req)], Returned)) \<and>
   (NewRequestWithContext http (req_method req) (serverURL (f ke) @ req_URI req) (req_body req) = Inr httpRequest \<and>
    Do http (executor_transport (f ke)) (executeHTTPRequest_headers http (f ke) req httpRequest) = Inl err
      \<longrightarrow> executeHTTPRequest http ke req = ([makeBadGatewayResponse (req_id req)], Returned)) \<and>
   (NewRequestWithContext http (req_method req) (serverURL (f ke) @ req_URI req) (req_body req) = Inr httpRequest \<and>
    CopyHeaders tunnel (req_headers req) httpRequest = Inl err
      \<longrightarrow> ExecuteHTTPRequest http tunnel ke req = ([MakeBadGatewayResponse (req_id req)], Returned)) \<and>
   makeBadGatewayResponse (req_id req) = HttpTunnelControl (HttpTunnelResponse (req_id req) 502 [] 0) \<and>
   MakeBadGatewayResponse (req_id req) = HttpTunnelControl (HttpTunnelResponse (req_id req) 502 [] 0)"
proof (intro conjI impI)
  assume "NewRequestWithContext http (req_method req) (serverURL (f ke) @ req_URI req) (req_body req) = Inl err"
  then show "executeHTTPRequest http ke req = ([makeBadGatewayResponse (req_id req)], Returned)"
    by (rule executeHTTPRequest_build_fails)
next
  assume "NewRequestWithContext http (req_method req) (serverURL (f ke) @ req_URI req) (req_body req) = Inl err"
  then show "ExecuteHTTPRequest http tunnel ke req = ([MakeBadGatewayResponse (req_id req)], Returned)"
    by (rule ExecuteHTTPRequest_build_fails)
next
  assume "NewRequestWithContext http (req_method req) (serverURL (f ke) @ req_URI req) (req_body req) = Inr httpRequest \<and>
    Do http (executor_transport (f ke)) (executeHTTPRequest_headers http (f ke) req httpRequest) = Inl err"
  then have "NewRequestWithContext http (req_method req) (serverURL (f ke) @ req_URI req) (req_body req) = Inr httpRequest"
    and "Do http (executor_transport (f ke)) (executeHTTPRequest_headers http (f ke) req httpRequest) = Inl err"
    by simp_all
  then show "executeHTTPRequest http ke req = ([makeBadGatewayResponse (req_id req)], Returned)"
    by (rule executeHTTPRequest_do_fails)
next
  assume "NewRequestWithContext http (req_method req) (serverURL (f ke) @ req_URI req) (req_body req) = Inr httpRequest \<and>
    CopyHeaders tunnel (req_headers req) httpRequest = Inl err"
  then have "NewRequestWithContext http (req_method req) (serverURL (f ke) @ req_URI req) (req_body req) = Inr httpRequest"
    and "CopyHeaders tunnel (req_headers req) httpRequest = Inl err"
    by simp_all
  then show "ExecuteHTTPRequest http tunnel ke req = ([MakeBadGatewayResponse (req_id req)], Returned)"
    by (rule ExecuteHTTPRequest_copy_fails)
next
  show "makeBadGatewayResponse (req_id req) = HttpTunnelControl (HttpTunnelResponse (req_id req) 502 [] 0)"
    by (simp add: makeBadGatewayResponse_def)
next
  show "MakeBadGatewayResponse (req_id req) = HttpTunnelControl (HttpTunnelResponse (req_id req) 502 [] 0)"
    by (simp add: MakeBadGatewayResponse_def makeBadGatewayResponse_def)
qed

theorem executor_bad_gateway_witness:
  "Do (example_http (Inl (ErrorString ''connection refused''))) (executor_transport (f example_endpoint))
     (executeHTTPRequest_headers (example_http (Inl (ErrorString ''connection refused'')))
        (f example_endpoint) example_request []) = Inl (ErrorString ''connection refused'') \<and>
   executeHTTPRequest (example_http (Inl (ErrorString ''connection refused''))) example_endpoint example_request =
     ([HttpTunnelControl (HttpTunnelResponse ''t1'' 502 [] 0)], Returned)"
proof -
  note a = example_build [of "Inl (ErrorString ''connection refused'')"]
  note b = example_do [of "Inl (ErrorString ''connection refused'')" "executor_transport (f example_endpoint)"
      "executeHTTPRequest_headers (example_http (Inl (ErrorString ''connection refused'')))
        (f example_endpoint) example_request []"]
  note t = executor_bad_gateway [of "example_http (Inl (ErrorString ''connection refused''))"
      example_request example_endpoint "ErrorString ''connection refused''" example_tunnel "[]"]
  from t [THEN conjunct2, THEN conjunct1] a b
  have "executeHTTPRequest (example_http (Inl (ErrorString ''connection refused''))) example_endpoint example_request =
     ([makeBadGatewayResponse (req_id example_request)], Returned)"
    by simp
  moreover from t [THEN conjunct2, THEN conjunct2, THEN conjunct2, THEN conjunct1]
  have "makeBadGatewayResponse (req_id example_request) = HttpTunnelControl (HttpTunnelResponse ''t1'' 502 [] 0)"
    by (simp add: example_request_def)
  ultimately show ?thesis using b by simp
qed

text \<open>
  Claim C2, as amended. When the outbound call succeeds, the frames the executor sends
  are the response frame first, then chunk frames, each with a body that is not empty and
  has at most 10240 bytes, and then one chunk with an empty body exactly when the executor
  has returned and the read of the body did not end with \<open>context.Canceled\<close>. When no
  read gives more than the buffer holds, the executor has returned exactly when a read
  has returned an error, and is still reading when none has.
\<close>

theorem executor_frames:
  assumes "NewRequestWithContext http (req_method req) (serverURL (f ke) @ req_URI req) (req_body req) = Inr httpRequest"
    and "Do http (executor_transport (f ke)) (executeHTTPRequest_headers http (f ke) req httpRequest) = Inr get"
  shows "\<exists>chunks status.
     executeHTTPRequest http ke req =
       (makeResponse (req_id req) get # map (makeChunkedResponse (req_id req)) chunks @
          (if status = Returned \<and> read_end (Body get) \<noteq> Some Canceled
           then [makeChunkedResponse (req_id req) emptyBytes] else []),
        status) \<and>
     (\<forall>d \<in> set chunks. d \<noteq> [] \<and> length d \<le> 10240) \<and>
     ((\<forall>r \<in> set (Body get). length (rd_data r) \<le> 10240) \<longrightarrow>
        status = (if read_end (Body get) = None then Reading else Returned))"
proof -
  from loop_shape [of "req_id req" "Body get"] obtain chunks where
    c: "\<forall>d \<in> set chunks. d \<noteq> [] \<and> length d \<le> 10240"
    and e: "fst (executeHTTPRequest_loop (req_id req) (Body get)) =
       map (makeChunkedResponse (req_id req)) chunks @
       (if snd (executeHTTPRequest_loop (req_id req) (Body get)) = Returned \<and> read_end (Body get) \<noteq> Some Canceled
        then [makeChunkedResponse (req_id req) emptyBytes] else [])"
    by blast
  have "executeHTTPRequest http ke req =
       (makeResponse (req_id req) get # map (makeChunkedResponse (req_id req)) chunks @
          (if snd (executeHTTPRequest_loop (req_id req) (Body get)) = Returned \<and> read_end (Body get) \<noteq> Some Canceled
           then [makeChunkedResponse (req_id req) emptyBytes] else []),
        snd (executeHTTPRequest_loop (req_id req) (Body get)))"
    unfolding executeHTTPRequest_do_succeeds [OF assms] e by simp
  moreover have "(\<forall>r \<in> set (Body get). length (rd_data r) \<le> 10240) \<longrightarrow>
        snd (executeHTTPRequest_loop (req_id req) (Body get)) =
          (if read_end (Body get) = None then Reading else Returned)"
    using loop_status by blast
  ultimately show ?thesis using c by blast
qed

theorem executor_frames_witness:
  "NewRequestWithContext (example_http (Inr (example_response complete_body))) (req_method example_request)
     (serverURL (f example_endpoint) @ req_URI example_request) (req_body example_request) = Inr [] \<and>
   Do (example_http (Inr (example_response complete_body))) (executor_transport (f example_endpoint))
     (executeHTTPRequest_headers (example_http (Inr (example_response complete_body)))
        (f example_endpoint) example_request []) = Inr (example_response complete_body) \<and>
   (\<exists>chunks status.
      executeHTTPRequest (example_http (Inr (example_response complete_body))) example_endpoint example_request =
       (makeResponse (req_id example_request) (example_response complete_body) #
          map (makeChunkedResponse (req_id example_request)) chunks @
          (if status = Returned \<and> read_end (Body (example_response complete_body)) \<noteq> Some Canceled
           then [makeChunkedResponse (req_id example_request) emptyBytes] else []),
        status))"
proof -
  note a = example_build [of "Inr (example_response complete_body)"]
  note b = example_do [of "Inr (example_response complete_body)" "executor_transport (f example_endpoint)"
      "executeHTTPRequest_headers (example_http (Inr (example_response complete_body)))
        (f example_endpoint) example_request []"]
  from executor_frames [OF a b] have "\<exists>chunks status.
      executeHTTPRequest (example_http (Inr (example_response complete_body))) example_endpoint example_request =
       (makeResponse (req_id example_request) (example_response complete_body) #
          map (makeChunkedResponse (req_id example_request)) chunks @
          (if status = Returned \<and> read_end (Body (example_response complete_body)) \<noteq> Some Canceled
           then [makeChunkedResponse (req_id example_request) emptyBytes] else []),
        status)"
    by blast
  with a b show ?thesis by (intro conjI)
qed

text \<open>
  A body that gives two bytes and then \<open>context.Canceled\<close>: the executor sends the
  response frame and one chunk and returns; no chunk with an empty body ends the frames.
\<close>

theorem executor_frames_counterexample:
  "executeHTTPRequest (example_http (Inr (example_response cancelled_body))) example_endpoint example_request =
     ([HttpTunnelControl (HttpTunnelResponse ''t1'' 200 [] 2),
       HttpTunnelControl (HttpTunnelChunkedResponse ''t1'' ''ab'')],
      Returned)"
  by (simp add: executeHTTPRequest_def Let_def example_http_def example_request_def
      example_response_def cancelled_body_def makeResponse_def makeChunkedResponse_def)

text \<open>
  Claim C10. When the outbound call succeeded and the read of the body ends with an error
  that is neither \<open>io.EOF\<close> nor \<open>context.Canceled\<close>, the executor sends the response
  frame, the chunks read so far and a chunk with an empty body, and returns. The frames
  are those of a run whose body has \<open>io.EOF\<close> wherever this body has an error.
\<close>

theorem executor_read_error_as_eof:
  assumes "NewRequestWithContext http (req_method req) (serverURL (f ke) @ req_URI req) (req_body req) = Inr httpRequest"
    and "Do http (executor_transport (f ke)) (executeHTTPRequest_headers http (f ke) req httpRequest) = Inr get"
    and "\<forall>r \<in> set (Body get). length (rd_data r) \<le> 10240"
    and "read_end (Body get) = Some err" and "err \<noteq> EOF" and "err \<noteq> Canceled"
  shows "(\<exists>chunks.
      executeHTTPRequest http ke req =
        (makeResponse (req_id req) get # map (makeChunkedResponse (req_id req)) chunks @
           [makeChunkedResponse (req_id req) emptyBytes], Returned) \<and>
      (\<forall>d \<in> set chunks. d \<noteq> [] \<and> length d \<le> 10240)) \<and>
    (NewRequestWithContext http2 (req_method req) (serverURL (f ke) @ req_URI req) (req_body req) = Inr httpRequest2 \<and>
     Do http2 (executor_transport (f ke)) (executeHTTPRequest_headers http2 (f ke) req httpRequest2) =
       Inr (get\<lparr>Body := map (\<lambda>r. if rd_err r = None then r else r\<lparr>rd_err := Some EOF\<rparr>) (Body get)\<rparr>)
     \<longrightarrow> executeHTTPRequest http2 ke req = executeHTTPRequest http ke req)"
proof -
  from loop_shape [of "req_id req" "Body get"] obtain chunks where
    c: "\<forall>d \<in> set chunks. d \<noteq> [] \<and> length d \<le> 10240"
    and e: "fst (executeHTTPRequest_loop (req_id req) (Body get)) =
       map (makeChunkedResponse (req_id req)) chunks @
       (if snd (executeHTTPRequest_loop (req_id req) (Body get)) = Returned \<and> read_end (Body get) \<noteq> Some Canceled
        then [makeChunkedResponse (req_id req) emptyBytes] else [])"
    by blast
  from loop_status [OF assms(3)] assms(4)
  have st: "snd (executeHTTPRequest_loop (req_id req) (Body get)) = Returned"
    by simp
  have "executeHTTPRequest http ke req =
        (makeResponse (req_id req) get # map (makeChunkedResponse (req_id req)) chunks @
           [makeChunkedResponse (req_id req) emptyBytes], Returned)"
    unfolding executeHTTPRequest_do_succeeds [OF assms(1,2)] e st using assms(4,6) by simp
  with c have a: "\<exists>chunks.
      executeHTTPRequest http ke req =
        (makeResponse (req_id req) get # map (makeChunkedResponse (req_id req)) chunks @
           [makeChunkedResponse (req_id req) emptyBytes], Returned) \<and>
      (\<forall>d \<in> set chunks. d \<noteq> [] \<and> length d \<le> 10240)"
    by blast
  from assms(4,6) have nc: "read_end (Body get) \<noteq> Some Canceled" by simp
  have b: "executeHTTPRequest http2 ke req = executeHTTPRequest http ke req"
    if h: "NewRequestWithContext http2 (req_method req) (serverURL (f ke) @ req_URI req) (req_body req) = Inr httpRequest2 \<and>
     Do http2 (executor_transport (f ke)) (executeHTTPRequest_headers http2 (f ke) req httpRequest2) =
       Inr (get\<lparr>Body := map (\<lambda>r. if rd_err r = None then r else r\<lparr>rd_err := Some EOF\<rparr>) (Body get)\<rparr>)"
  proof -
    from h have h1: "NewRequestWithContext http2 (req_method req) (serverURL (f ke) @ req_URI req) (req_body req) = Inr httpRequest2"
      and h2: "Do http2 (executor_transport (f ke)) (executeHTTPRequest_headers http2 (f ke) req httpRequest2) =
       Inr (get\<lparr>Body := map (\<lambda>r. if rd_err r = None then r else r\<lparr>rd_err := Some EOF\<rparr>) (Body get)\<rparr>)"
      by simp_all
    have m: "makeResponse (req_id req)
        (get\<lparr>Body := map (\<lambda>r. if rd_err r = None then r else r\<lparr>rd_err := Some EOF\<rparr>) (Body get)\<rparr>) =
        makeResponse (req_id req) get"
      by (simp add: makeResponse_def)
    show ?thesis
      unfolding executeHTTPRequest_do_succeeds [OF h1 h2] executeHTTPRequest_do_succeeds [OF assms(1,2)] m
      by (simp add: loop_eof_instead [OF nc])
  qed
  from a b show ?thesis by blast
qed

theorem executor_read_error_as_eof_witness:
  "read_end (Body (example_response broken_body)) = Some (ErrorString ''connection reset by peer'') \<and>
   executeHTTPRequest (example_http (Inr (example_response broken_body))) example_endpoint example_request =
     ([HttpTunnelControl (HttpTunnelResponse ''t1'' 200 [] 2),
       HttpTunnelControl (HttpTunnelChunkedResponse ''t1'' ''ab''),
       HttpTunnelControl (HttpTunnelChunkedResponse ''t1'' [])],
      Returned) \<and>
   executeHTTPRequest (example_http (Inr (example_response complete_body))) example_endpoint example_request =
   executeHTTPRequest (example_http (Inr (example_response broken_body))) example_endpoint example_request"
proof -
  note a = example_build [of "Inr (example_response broken_body)"]
  note b = example_do [of "Inr (example_response broken_body)" "executor_transport (f example_endpoint)"
      "executeHTTPRequest_headers (example_http (Inr (example_response broken_body)))
        (f example_endpoint) example_request []"]
  have c: "\<forall>r \<in> set (Body (example_response broken_body)). length (rd_data r) \<le> 10240"
    by (simp add: example_response_def broken_body_def)
  have d: "read_end (Body (example_response broken_body)) = Some (ErrorString ''connection reset by peer'')"
    by (simp add: example_response_def broken_body_def)
  have e: "ErrorString ''connection reset by peer'' \<noteq> EOF" "ErrorString ''connection reset by peer'' \<noteq> Canceled"
    by simp_all
  note t = executor_read_error_as_eof [OF a b c d e, of "example_http (Inr (example_response complete_body))" "[]"]
  have x: "executeHTTPRequest (example_http (Inr (example_response broken_body))) example_endpoint example_request =
     ([HttpTunnelControl (HttpTunnelResponse ''t1'' 200 [] 2),
       HttpTunnelControl (HttpTunnelChunkedResponse ''t1'' ''ab''),
       HttpTunnelControl (HttpTunnelChunkedResponse ''t1'' [])],
      Returned)"
    by (simp add: executeHTTPRequest_def Let_def example_http_def example_request_def
      example_response_def broken_body_def makeResponse_def makeChunkedResponse_def emptyBytes_def)
  have y: "executeHTTPRequest (example_http (Inr (example_response complete_body))) example_endpoint example_request =
     ([HttpTunnelControl (HttpTunnelResponse ''t1'' 200 [] 2),
       HttpTunnelControl (HttpTunnelChunkedResponse ''t1'' ''ab''),
       HttpTunnelControl (HttpTunnelChunkedResponse ''t1'' [])],
      Returned)"
    by (simp add: executeHTTPRequest_def Let_def example_http_def example_request_def
      example_response_def complete_body_def makeResponse_def makeChunkedResponse_def emptyBytes_def)
  from t d x y show ?thesis by simp
qed

section \<open>Properties of the identity binding\<close>

lemma getAgentNameFromContext_success:
  "(getAgentNameFromContext GetCertificateNameFromCert ctx = Inr agent) =
     (\<exists>verifiedChains names. ctx = Some (TLSInfo verifiedChains) \<and> verifiedChains \<noteq> [] \<and>
        hd verifiedChains \<noteq> [] \<and>
        GetCertificateNameFromCert (hd (hd verifiedChains)) = Inr names \<and>
        cn_Purpose names = CertificatePurposeAgent \<and> agent = cn_Agent names)"
proof (cases ctx)
  case None
  then show ?thesis by (simp add: getAgentNameFromContext_def)
next
  case (Some info)
  show ?thesis
  proof (cases info)
    case OtherAuthInfo
    with Some show ?thesis by (simp add: getAgentNameFromContext_def)
  next
    case (TLSInfo verifiedChains)
    with Some show ?thesis
      by (cases "GetCertificateNameFromCert (verifiedChains ! 0 ! 0)")
         (auto simp add: getAgentNameFromContext_def getAgentNameFromCertificate_def hd_conv_nth)
  qed
qed

lemma getAgentNameFromContext_no_chain:
  "ctx = None \<or> ctx = Some OtherAuthInfo \<or> ctx = Some (TLSInfo []) \<or> ctx = Some (TLSInfo ([] # rest)) \<Longrightarrow>
   \<exists>text. getAgentNameFromContext GetCertificateNameFromCert ctx = Inl (StatusError Unauthenticated text)"
  by (auto simp add: getAgentNameFromContext_def)

text \<open>
  Claim C3. The peer has a verified chain whose leaf is a certificate with the purpose
  \<open>control\<close>: the extraction fails with an error that is a plain text and carries no
  status code, where the claim has an unauthenticated status.
\<close>

theorem getAgentNameFromContext_wrong_purpose:
  "getAgentNameFromContext control_names (Some (TLSInfo [[\<lparr>Raw = ''der''\<rparr>]])) =
     Inl (ErrorString ''not an agent certificate'')"
  by (simp add: getAgentNameFromContext_def getAgentNameFromCertificate_def control_names_def
      CertificatePurposeAgent_def)


end
